theory Spec2Isabelle
  imports Main "HOL-Library.Sublist"
begin

section \<open>Python string operations used by the deployment scripts\<close>

text \<open>
  Text is a \<open>string\<close>, a list of 8-bit characters: a character stands for the code point
  of the same number, so the model covers Python's \<open>str\<close> on the code points 0 to 255.
  White space is what \<open>str.isspace\<close> accepts there, a line boundary is what
  \<open>str.splitlines\<close> splits at, and \<open>lower\<close> is \<open>str.lower\<close>.
\<close>

definition isspace :: "char \<Rightarrow> bool" where
  "isspace c \<longleftrightarrow>
     c \<in> set [CHR 0x09, CHR 0x0A, CHR 0x0B, CHR 0x0C, CHR 0x0D,
              CHR 0x1C, CHR 0x1D, CHR 0x1E, CHR 0x1F, CHR 0x20, CHR 0x85, CHR 0xA0]"

definition is_linebreak :: "char \<Rightarrow> bool" where
  "is_linebreak c \<longleftrightarrow>
     c \<in> set [CHR 0x0A, CHR 0x0B, CHR 0x0C, CHR 0x0D, CHR 0x1C, CHR 0x1D, CHR 0x1E, CHR 0x85]"

text \<open>\<open>s.strip()\<close>\<close>

definition strip :: "string \<Rightarrow> string" where
  "strip s = rev (dropWhile isspace (rev (dropWhile isspace s)))"

text \<open>\<open>s.lower()\<close>\<close>

definition upper_letters :: string where
  "upper_letters =
     ''ABCDEFGHIJKLMNOPQRSTUVWXYZ'' @
     [CHR 0xC0, CHR 0xC1, CHR 0xC2, CHR 0xC3, CHR 0xC4, CHR 0xC5, CHR 0xC6,
      CHR 0xC7, CHR 0xC8, CHR 0xC9, CHR 0xCA, CHR 0xCB, CHR 0xCC, CHR 0xCD,
      CHR 0xCE, CHR 0xCF, CHR 0xD0, CHR 0xD1, CHR 0xD2, CHR 0xD3, CHR 0xD4,
      CHR 0xD5, CHR 0xD6, CHR 0xD8, CHR 0xD9, CHR 0xDA, CHR 0xDB, CHR 0xDC,
      CHR 0xDD, CHR 0xDE]"

definition lower_letters :: string where
  "lower_letters =
     ''abcdefghijklmnopqrstuvwxyz'' @
     [CHR 0xE0, CHR 0xE1, CHR 0xE2, CHR 0xE3, CHR 0xE4, CHR 0xE5, CHR 0xE6,
      CHR 0xE7, CHR 0xE8, CHR 0xE9, CHR 0xEA, CHR 0xEB, CHR 0xEC, CHR 0xED,
      CHR 0xEE, CHR 0xEF, CHR 0xF0, CHR 0xF1, CHR 0xF2, CHR 0xF3, CHR 0xF4,
      CHR 0xF5, CHR 0xF6, CHR 0xF8, CHR 0xF9, CHR 0xFA, CHR 0xFB, CHR 0xFC,
      CHR 0xFD, CHR 0xFE]"

definition lower_char :: "char \<Rightarrow> char" where
  "lower_char c = (case map_of (zip upper_letters lower_letters) c of Some d \<Rightarrow> d | None \<Rightarrow> c)"

definition lower :: "string \<Rightarrow> string" where
  "lower s = map lower_char s"

text \<open>\<open>s.startswith(p)\<close>\<close>

definition startswith :: "string \<Rightarrow> string \<Rightarrow> bool" where
  "startswith s p \<longleftrightarrow> take (length p) s = p"

text \<open>\<open>sub in s\<close> on strings: \<open>sub\<close> occurs in \<open>s\<close> as a contiguous piece.\<close>

fun py_in :: "string \<Rightarrow> string \<Rightarrow> bool" where
  "py_in sub [] \<longleftrightarrow> sub = []"
| "py_in sub (c # cs) \<longleftrightarrow> startswith (c # cs) sub \<or> py_in sub cs"

text \<open>\<open>s.split(sep)\<close> for a one-character separator: \<open>''''.split('\n') == ['''']\<close>.\<close>

fun split_on :: "char \<Rightarrow> string \<Rightarrow> string list" where
  "split_on sep [] = [[]]"
| "split_on sep (c # cs) =
     (if c = sep then [] # split_on sep cs
      else (case split_on sep cs of
              [] \<Rightarrow> [[c]]
            | l # ls \<Rightarrow> (c # l) # ls))"

text \<open>
  \<open>s.splitlines()\<close>: a line ends at a line boundary (\<open>\r\n\<close> counts as one), and
  there is no empty last line: \<open>''''.splitlines() == []\<close>, \<open>'a\n'.splitlines() == ['a']\<close>.
  The first argument is the current line, reversed.
\<close>

fun splitlines_from :: "string \<Rightarrow> string \<Rightarrow> string list" where
  "splitlines_from cur [] = (if cur = [] then [] else [rev cur])"
| "splitlines_from cur (c # cs) =
     (if c = CHR 0x0D then
        (case cs of
           [] \<Rightarrow> [rev cur]
         | d # ds \<Rightarrow> if d = CHR 0x0A then rev cur # splitlines_from [] ds
                    else rev cur # splitlines_from [] (d # ds))
      else if is_linebreak c then rev cur # splitlines_from [] cs
      else splitlines_from (c # cur) cs)"

definition splitlines :: "string \<Rightarrow> string list" where
  "splitlines s = splitlines_from [] s"

text \<open>\<open>s.split()\<close>: the maximal runs of characters that are not white space.\<close>

fun split_ws_from :: "string \<Rightarrow> string \<Rightarrow> string list" where
  "split_ws_from cur [] = (if cur = [] then [] else [rev cur])"
| "split_ws_from cur (c # cs) =
     (if isspace c then (if cur = [] then split_ws_from [] cs else rev cur # split_ws_from [] cs)
      else split_ws_from (c # cur) cs)"

definition split_ws :: "string \<Rightarrow> string list" where
  "split_ws s = split_ws_from [] s"

section \<open>Classifying the resources of a namespace\<close>

subsection \<open>deploy\_mysql.py: \<open>DeploymentManager.check_existing_resources\<close>\<close>

text \<open>\<open>any(x in line.lower() for x in ['mysql', 'phpmyadmin'])\<close>\<close>

definition mentions_mysql :: "string \<Rightarrow> bool" where
  "mentions_mysql line \<longleftrightarrow> list_ex (\<lambda>x. py_in x (lower line)) [''mysql'', ''phpmyadmin'']"

text \<open>
  The \<open>for\<close> loop over the lines: a line that mentions MySQL or PhpMyAdmin is skipped
  (\<open>continue\<close>); the first other line that is neither empty nor a header sets
  \<open>unexpected\<close> and leaves the loop (\<open>break\<close>). The result is the final \<open>unexpected\<close>.
\<close>

fun scan_unexpected :: "string list \<Rightarrow> bool" where
  "scan_unexpected [] = False"
| "scan_unexpected (line # rest) =
     (if mentions_mysql line then scan_unexpected rest
      else if line \<noteq> [] \<and> \<not> startswith line ''NAME'' then True
      else scan_unexpected rest)"

text \<open>The body of \<open>check_existing_resources\<close> from the text that the listing returned.\<close>

definition check_existing_resources_of :: "string \<Rightarrow> string" where
  "check_existing_resources_of resources =
     (if resources = [] then ''empty''
      else if scan_unexpected (split_on CHR 0x0A resources) then ''mixed''
      else if py_in ''mysql'' (lower resources) \<or> py_in ''phpmyadmin'' (lower resources)
        then ''expected''
      else ''empty'')"

subsection \<open>deploy\_ecom\_app.py: \<open>resources_belong_to_app\<close>\<close>

datatype py_exception = IndexError | ValueError | CalledProcessError | EOFError | OSError

text \<open>
  The loop of \<open>resources_belong_to_app\<close>. \<open>line.split()[0]\<close> raises \<open>IndexError\<close> on a
  line without a token.
\<close>

fun belong_loop :: "string list \<Rightarrow> py_exception + bool" where
  "belong_loop [] = Inr True"
| "belong_loop (line # rest) =
     (if startswith line ''NAME'' then belong_loop rest
      else if strip line = [] then belong_loop rest
      else (case split_ws line of
              [] \<Rightarrow> Inl IndexError
            | name # _ \<Rightarrow>
                if \<not> py_in ''ecommerce-application'' name then Inr False
                else belong_loop rest))"

definition resources_belong_to_app :: "string \<Rightarrow> py_exception + bool" where
  "resources_belong_to_app resources_output = belong_loop (splitlines resources_output)"

text \<open>
  \<open>manage_existing_resources\<close> has no classification function: it branches on the text
  being non-empty and on \<open>resources_belong_to_app\<close>. The branch it takes is the
  classification.
\<close>

datatype classification = Empty | AllOwned | Mixed

definition ecom_classification :: "string \<Rightarrow> py_exception + classification" where
  "ecom_classification resources_output =
     (if resources_output \<noteq> [] then
        (case resources_belong_to_app resources_output of
           Inl e \<Rightarrow> Inl e
         | Inr b \<Rightarrow> if b then Inr AllOwned else Inr Mixed)
      else Inr Empty)"

subsection \<open>The entries of a listing and the ownership predicates\<close>

text \<open>
  An entry of a listing is a line that the loop of the script judges. In deploy\_mysql.py
  it is a line that is not the empty line and does not start with \<open>NAME\<close> (a line of
  white space only is an entry); in deploy\_ecom\_app.py it is a line that does not start
  with \<open>NAME\<close> and is not white space only.
  deploy\_mysql.py takes an entry as its own when the whole lower-cased row mentions
  \<open>mysql\<close> or \<open>phpmyadmin\<close>, in whatever column (\<open>mentions_mysql\<close>);
  deploy\_ecom\_app.py when the first column, the name, contains
  \<open>ecommerce-application\<close> (\<open>ecom_owned\<close>).
\<close>

definition mysql_entries :: "string \<Rightarrow> string list" where
  "mysql_entries resources =
     filter (\<lambda>line. line \<noteq> [] \<and> \<not> startswith line ''NAME'') (split_on CHR 0x0A resources)"

definition ecom_entries :: "string \<Rightarrow> string list" where
  "ecom_entries resources_output =
     filter (\<lambda>line. \<not> startswith line ''NAME'' \<and> strip line \<noteq> [])
       (splitlines resources_output)"

definition ecom_owned :: "string \<Rightarrow> bool" where
  "ecom_owned line \<longleftrightarrow>
     (case split_ws line of [] \<Rightarrow> False | name # _ \<Rightarrow> py_in ''ecommerce-application'' name)"

text \<open>
  Ownership as the specification words it for deploy\_mysql.py, on the name of the entry:
  the first column mentions \<open>mysql\<close> or \<open>phpmyadmin\<close>. The script does not compute it.
\<close>

definition mysql_name_owned :: "string \<Rightarrow> bool" where
  "mysql_name_owned line \<longleftrightarrow>
     (case split_ws line of [] \<Rightarrow> False | name # _ \<Rightarrow> mentions_mysql name)"

text \<open>
  The header rows of a listing are plain when none of them mentions \<open>mysql\<close> or
  \<open>phpmyadmin\<close>, as the column titles that \<open>kubectl\<close> prints are.
\<close>

definition plain_headers :: "string \<Rightarrow> bool" where
  "plain_headers resources \<longleftrightarrow>
     (\<forall>line\<in>set (split_on CHR 0x0A resources).
        startswith line ''NAME'' \<longrightarrow> \<not> mentions_mysql line)"

text \<open>
  What \<open>kubectl get all -n database\<close> prints for a namespace that holds one foreign
  service of type ExternalName that points to \<open>mysql.example.com\<close>.
\<close>

definition foreign_service_listing :: string where
  "foreign_service_listing =
     ''NAME              TYPE           CLUSTER-IP   EXTERNAL-IP         PORT(S)   AGE\<newline>'' @
     ''service/foo-bar   ExternalName   <none>       mysql.example.com   <none>    5m\<newline>''"

section \<open>The outside world\<close>

text \<open>
  The scripts act on the cluster only by running commands, and they sleep, prompt the
  operator and write messages. A run of a script is modelled by the list of these events,
  in the order they happen. The world answers each command and each prompt; its answer
  may depend on everything that happened before, so a world is any deterministic
  environment: a cluster that changes under the commands, or a scripted test double.
  \<open>exec\<close> answers \<open>subprocess.run\<close> on an argument list, \<open>shell\<close> answers a shell
  command line, \<open>answer\<close> is what the operator types at a prompt (\<open>None\<close> is the end of
  the input), \<open>current_user\<close> is the account that runs the script, and \<open>fs\<close> tells
  whether a test on the file system holds or an operation on it (or a clone of a
  repository) succeeds. A message is recorded by the text of its format string, as the
  source has it; the spawning of a command itself is taken to succeed.
\<close>

record completed_process =
  returncode :: int
  stdout :: string
  stderr :: string

datatype fs_op =
    Exists string
  | IsFile string
  | MakeDirs string
  | Chdir string
  | Copy string string
  | Rmtree string
  | CloneFrom string string

datatype event =
    Exec "string list"
  | Shell string
  | Sleep int
  | Prompt string
  | Message string
  | FS fs_op

record world =
  exec :: "event list \<Rightarrow> string list \<Rightarrow> completed_process"
  shell :: "event list \<Rightarrow> string \<Rightarrow> completed_process"
  answer :: "event list \<Rightarrow> string \<Rightarrow> string option"
  current_user :: string
  fs :: "event list \<Rightarrow> fs_op \<Rightarrow> bool"

text \<open>
  A function of a script either returns a value or ends the run: by \<open>sys.exit(n)\<close> or by
  an exception that nothing catches. Either way it leaves the events it added.
\<close>

datatype abort = SysExit int | Uncaught py_exception

type_synonym 'a result = "(abort + 'a) \<times> event list"

text \<open>\<open>subprocess.run(argv, capture_output=True, text=True)\<close>\<close>

definition subprocess_run :: "world \<Rightarrow> string list \<Rightarrow> event list \<Rightarrow> completed_process \<times> event list" where
  "subprocess_run w argv tr = (exec w tr argv, tr @ [Exec argv])"

text \<open>\<open>time.sleep(secs)\<close> raises \<open>ValueError\<close> for a negative length.\<close>

definition time_sleep :: "int \<Rightarrow> event list \<Rightarrow> unit result" where
  "time_sleep secs tr = (if secs < 0 then (Inl (Uncaught ValueError), tr) else (Inr (), tr @ [Sleep secs]))"

section \<open>Waiting for pods to be ready\<close>

subsection \<open>\<open>run_command\<close> (deploy\_kafka.py and deploy\_kubernetes\_dashboard.py)\<close>

definition run_command :: "world \<Rightarrow> string \<Rightarrow> bool \<Rightarrow> event list \<Rightarrow> string result" where
  "run_command w cmd check tr =
     (let tr1 = tr @ [Message ''Executing command: {cmd}''];
          res = shell w tr1 cmd;
          tr2 = tr1 @ [Shell cmd]
      in if check \<and> returncode res \<noteq> 0
         then (Inl (SysExit 1), tr2 @ [Message ''Command failed with code {result.returncode}: {cmd}\<newline>Stdout: {result.stdout}\<newline>Stderr: {result.stderr}''])
         else (Inr (strip (stdout res)), tr2))"

subsection \<open>Reading a ready ratio\<close>

text \<open>
  \<open>int(s)\<close> on text: white space around is dropped, a sign may lead, and the digits may
  be grouped by single underscores. \<open>None\<close> is \<open>ValueError\<close>.
\<close>

definition digit_value :: "char \<Rightarrow> nat option" where
  "digit_value c = map_of (zip ''0123456789'' [0, 1, 2, 3, 4, 5, 6, 7, 8, 9]) c"

fun decimal_from :: "nat \<Rightarrow> string \<Rightarrow> nat option" where
  "decimal_from acc [] = Some acc"
| "decimal_from acc (c # cs) =
     (case digit_value c of None \<Rightarrow> None | Some d \<Rightarrow> decimal_from (10 * acc + d) cs)"

definition py_nat :: "string \<Rightarrow> nat option" where
  "py_nat s =
     (let groups = split_on (CHR ''_'') s
      in if list_ex (\<lambda>g. g = []) groups then None else decimal_from 0 (concat groups))"

definition py_int :: "string \<Rightarrow> int option" where
  "py_int s =
     (case strip s of
        [] \<Rightarrow> None
      | c # cs \<Rightarrow>
          if c = CHR ''-'' then map_option (\<lambda>n. - int n) (py_nat cs)
          else if c = CHR ''+'' then map_option int (py_nat cs)
          else map_option int (py_nat (c # cs)))"

text \<open>
  \<open>ready_num, ready_den = map(int, ready.split('/'))\<close>: exactly two parts, both
  integers; anything else raises \<open>ValueError\<close> (\<open>None\<close>).
\<close>

definition py_ratio :: "string \<Rightarrow> (int \<times> int) option" where
  "py_ratio ready =
     (case split_on (CHR ''/'') ready of
        [a, b] \<Rightarrow> (case py_int a of
                     None \<Rightarrow> None
                   | Some ready_num \<Rightarrow> (case py_int b of
                                          None \<Rightarrow> None
                                        | Some ready_den \<Rightarrow> Some (ready_num, ready_den)))
      | _ \<Rightarrow> None)"

subsection \<open>The loop over the pod lines\<close>

text \<open>
  Both loops take the lines, the current \<open>all_ready\<close> and the events so far, and return
  the final \<open>all_ready\<close> and the events with the error messages added. A line with fewer
  than two columns is skipped.
\<close>

fun kafka_check_lines :: "string list \<Rightarrow> bool \<Rightarrow> event list \<Rightarrow> bool \<times> event list" where
  "kafka_check_lines [] all_ready tr = (all_ready, tr)"
| "kafka_check_lines (line # rest) all_ready tr =
     (let parts = split_ws line
      in if length parts < 2 then kafka_check_lines rest all_ready tr
         else (case py_ratio (parts ! 1) of
                 None \<Rightarrow>
                   kafka_check_lines rest False
                     (tr @ [Message ''Pod '{parts[0]}' has an unexpected READY format: '{ready}'. Full details: {line}''])
               | Some (ready_num, ready_den) \<Rightarrow>
                   if ready_num \<noteq> ready_den
                   then kafka_check_lines rest False
                          (tr @ [Message ''Pod '{parts[0]}' is not ready: READY state is '{ready}'. Full details: {line}''])
                   else kafka_check_lines rest all_ready tr))"

fun dashboard_check_lines :: "string list \<Rightarrow> bool \<Rightarrow> event list \<Rightarrow> bool \<times> event list" where
  "dashboard_check_lines [] all_ready tr = (all_ready, tr)"
| "dashboard_check_lines (line # rest) all_ready tr =
     (let parts = split_ws line
      in if length parts < 2 then dashboard_check_lines rest all_ready tr
         else if parts ! 1 \<noteq> ''1/1''
         then dashboard_check_lines rest False
                (tr @ [Message ''Pod '{parts[0]}' is not ready: READY state is '{ready}'. Full details: {line}''])
         else dashboard_check_lines rest all_ready tr)"

subsection \<open>\<open>wait_for_pods\<close>\<close>

text \<open>
  The two scripts have the same \<open>while elapsed < timeout\<close> loop around their own loop over
  the lines (\<open>check_lines\<close>) and their own message (\<open>ready_message\<close>). The loop does not
  end when the pods never become ready and \<open>interval\<close> is \<open>0\<close>, so its result is an
  \<open>option\<close>: \<open>None\<close> is a run that never returns.
\<close>

text \<open>The command of a poll: \<open>f"kubectl get pods -n {namespace} --no-headers"\<close>.\<close>

definition pods_command :: "string \<Rightarrow> string" where
  "pods_command namespace = ''kubectl get pods -n '' @ namespace @ '' --no-headers''"

partial_function (option) wait_for_pods_from ::
  "(string list \<Rightarrow> bool \<Rightarrow> event list \<Rightarrow> bool \<times> event list) \<Rightarrow> string \<Rightarrow> world \<Rightarrow> string \<Rightarrow>
     int \<Rightarrow> int \<Rightarrow> int \<Rightarrow> event list \<Rightarrow> unit result option" where
  "wait_for_pods_from check_lines ready_message w namespace timeout interval elapsed tr =
     (if elapsed < timeout then
        (case run_command w (pods_command namespace) False tr of
           (Inl a, tr1) \<Rightarrow> Some (Inl a, tr1)
         | (Inr output, tr1) \<Rightarrow>
             (case (if output \<noteq> [] then check_lines (splitlines output) True tr1
                    else (False, tr1)) of
                (all_ready, tr2) \<Rightarrow>
                  if output \<noteq> [] \<and> all_ready then Some (Inr (), tr2 @ [Message ready_message])
                  else (case time_sleep interval tr2 of
                          (Inl a, tr3) \<Rightarrow> Some (Inl a, tr3)
                        | (Inr _, tr3) \<Rightarrow>
                            wait_for_pods_from check_lines ready_message w namespace timeout
                              interval (elapsed + interval) tr3)))
      else Some (Inl (SysExit 1), tr @ [Message ''Timeout reached waiting for pods to be ready.'']))"

declare wait_for_pods_from.simps [code]

text \<open>deploy\_kafka.py: \<open>wait_for_pods(logger, namespace, timeout=300, interval=10)\<close>, which returns \<open>True\<close>.\<close>

definition kafka_wait_for_pods :: "world \<Rightarrow> string \<Rightarrow> int \<Rightarrow> int \<Rightarrow> event list \<Rightarrow> bool result option" where
  "kafka_wait_for_pods w namespace timeout interval tr =
     map_option (\<lambda>(r, tr'). (map_sum id (\<lambda>_. True) r, tr'))
       (wait_for_pods_from kafka_check_lines
          ''All pods are ready (all containers in each pod are running).'' w namespace timeout
          interval 0
          (tr @ [Message ''Waiting for Streaming pods to be in Ready state (all containers ready)...'']))"

text \<open>deploy\_kubernetes\_dashboard.py: \<open>wait_for_pods(namespace, timeout=300, interval=150)\<close>.\<close>

definition dashboard_wait_for_pods :: "world \<Rightarrow> string \<Rightarrow> int \<Rightarrow> int \<Rightarrow> event list \<Rightarrow> unit result option" where
  "dashboard_wait_for_pods w namespace timeout interval tr =
     wait_for_pods_from dashboard_check_lines ''All pods are ready (READY: 1/1).'' w namespace
       timeout interval 0
       (tr @ [Message ''Waiting for all Kubernetes Dashboard pods to be in Ready state (READY: 1/1)...''])"

subsection \<open>Observing the waiter\<close>

text \<open>
  A poll is one listing of the pods; \<open>polls\<close> counts the polls of a run.
  \<open>poll_output\<close> is what \<open>run_command\<close> hands to the loop when the listing is asked
  after the events \<open>h\<close>, and \<open>ready_column\<close> is the READY column of the lines that
  have one. \<open>polls_left\<close> is the number of polls that the loop still makes while no
  poll finds the pods ready, for a positive interval.
\<close>

fun is_poll :: "event \<Rightarrow> bool" where
  "is_poll (Shell cmd) = True"
| "is_poll _ = False"

definition polls :: "event list \<Rightarrow> nat" where
  "polls tr = length (filter is_poll tr)"

definition poll_output :: "world \<Rightarrow> string \<Rightarrow> event list \<Rightarrow> string" where
  "poll_output w namespace h = strip (stdout (shell w h (pods_command namespace)))"

definition ready_column :: "string list \<Rightarrow> string list" where
  "ready_column ls =
     map (\<lambda>line. split_ws line ! 1) (filter (\<lambda>line. 2 \<le> length (split_ws line)) ls)"

definition polls_left :: "int \<Rightarrow> int \<Rightarrow> int \<Rightarrow> nat" where
  "polls_left timeout interval elapsed = nat ((timeout - elapsed + interval - 1) div interval)"

text \<open>
  A scripted world: the \<open>k\<close>-th poll is answered with the \<open>k\<close>-th listing, every
  later poll with nothing; every other command succeeds and prints nothing.
\<close>

definition scripted_pods :: "string list \<Rightarrow> world" where
  "scripted_pods listings =
     \<lparr>exec = (\<lambda>h argv. \<lparr>returncode = 0, stdout = [], stderr = []\<rparr>),
      shell = (\<lambda>h cmd. \<lparr>returncode = 0,
                          stdout = (if polls h < length listings then listings ! polls h else []),
                          stderr = []\<rparr>),
      answer = (\<lambda>h question. None),
      current_user = ''muser'',
      fs = (\<lambda>h op. True)\<rparr>"

text \<open>
  A listing is ready for deploy\_kafka.py when every ratio of its READY column reads
  \<open>x/y\<close> with \<open>x = y\<close>, and for deploy\_kubernetes\_dashboard.py when every entry of
  the column is the text \<open>1/1\<close>.
\<close>

definition kafka_listing_ready :: "string list \<Rightarrow> bool" where
  "kafka_listing_ready ls \<longleftrightarrow>
     (\<forall>r\<in>set (ready_column ls). \<exists>x y. py_ratio r = Some (x, y) \<and> x = y)"

definition dashboard_listing_ready :: "string list \<Rightarrow> bool" where
  "dashboard_listing_ready ls \<longleftrightarrow> (\<forall>r\<in>set (ready_column ls). r = ''1/1'')"



section \<open>Listing the namespace and ensuring that it exists\<close>

text \<open>
  \<open>DeploymentManager.get_namespace_resources\<close> of deploy\_mysql.py: \<open>check=True\<close> raises
  \<open>CalledProcessError\<close> on a non-zero exit status, and the handler returns \<open>""\<close>.
\<close>

definition get_namespace_resources :: "world \<Rightarrow> event list \<Rightarrow> string \<times> event list" where
  "get_namespace_resources w tr =
     (case subprocess_run w [''kubectl'', ''get'', ''all'', ''-n'', ''database''] tr of
        (res, tr1) \<Rightarrow> if returncode res \<noteq> 0 then ([], tr1) else (stdout res, tr1))"

text \<open>\<open>get_resources\<close> of deploy\_ecom\_app.py.\<close>

definition get_resources :: "world \<Rightarrow> string \<Rightarrow> event list \<Rightarrow> string \<times> event list" where
  "get_resources w namespace tr =
     (case subprocess_run w [''kubectl'', ''get'', ''all'', ''-n'', namespace] tr of
        (res, tr1) \<Rightarrow>
          if returncode res \<noteq> 0
          then ([], tr1 @ [Message ''Error getting resources from namespace '{namespace}': {e}''])
          else (strip (stdout res), tr1))"

text \<open>\<open>DeploymentManager.manage_namespace\<close> of deploy\_mysql.py.\<close>

definition manage_namespace :: "world \<Rightarrow> event list \<Rightarrow> unit result" where
  "manage_namespace w tr =
     (case subprocess_run w [''kubectl'', ''get'', ''namespace'', ''database''] tr of
        (res, tr1) \<Rightarrow>
          if returncode res \<noteq> 0 then
            (case subprocess_run w [''kubectl'', ''create'', ''namespace'', ''database''] tr1 of
               (created, tr2) \<Rightarrow>
                 if returncode created \<noteq> 0
                 then (Inl (SysExit 1), tr2 @ [Message ''Error managing namespace: {str(e)}''])
                 else (Inr (), tr2 @ [Message ''Created database namespace'']))
          else (Inr (), tr1 @ [Message ''Database namespace already exists'']))"

text \<open>
  \<open>ensure_namespace\<close> of deploy\_ecom\_app.py: the create runs outside the \<open>try\<close>, so its
  \<open>CalledProcessError\<close> is caught by nothing.
\<close>

definition ensure_namespace :: "world \<Rightarrow> string \<Rightarrow> event list \<Rightarrow> unit result" where
  "ensure_namespace w namespace tr =
     (case subprocess_run w [''kubectl'', ''get'', ''namespace'', namespace] tr of
        (res, tr1) \<Rightarrow>
          if returncode res \<noteq> 0 then
            (case subprocess_run w [''kubectl'', ''create'', ''namespace'', namespace]
                    (tr1 @ [Message ''Namespace '{namespace}' does not exist. Creating it...'']) of
               (created, tr2) \<Rightarrow>
                 if returncode created \<noteq> 0 then (Inl (Uncaught CalledProcessError), tr2)
                 else (Inr (), tr2 @ [Message ''Namespace '{namespace}' created.'']))
          else (Inr (), tr1 @ [Message ''Namespace '{namespace}' exists.'']))"


subsection \<open>Worlds for the examples\<close>

text \<open>
  A static world answers a command by its argument list alone. The four below are a
  cluster that cannot be reached, a cluster whose namespace exists and is empty, a
  cluster without the namespace, and a cluster in which the namespace appears between the
  existence check and the create. \<open>creates\<close> counts the namespace creations of a run.
\<close>

definition completed :: "int \<Rightarrow> string \<Rightarrow> string \<Rightarrow> completed_process" where
  "completed code out err = \<lparr>returncode = code, stdout = out, stderr = err\<rparr>"

definition static_world :: "(string list \<Rightarrow> completed_process) \<Rightarrow> string option \<Rightarrow> world" where
  "static_world respond reply =
     \<lparr>exec = (\<lambda>h argv. respond argv),
      shell = (\<lambda>h cmd. completed 0 [] []),
      answer = (\<lambda>h question. reply),
      current_user = ''muser'',
      fs = (\<lambda>h op. True)\<rparr>"

definition unreachable_cluster :: world where
  "unreachable_cluster =
     static_world
       (\<lambda>argv. completed 1 []
          ''The connection to the server 192.168.49.2:8443 was refused - did you specify the right host or port?\<newline>'')
       None"

definition empty_namespace :: world where
  "empty_namespace =
     static_world
       (\<lambda>argv. if take 3 argv = [''kubectl'', ''get'', ''all'']
               then completed 0 [] ''No resources found in database namespace.\<newline>''
               else completed 0 [] [])
       None"

definition namespace_race :: world where
  "namespace_race =
     static_world
       (\<lambda>argv. if take 3 argv = [''kubectl'', ''get'', ''namespace'']
               then completed 1 [] ''Error from server (NotFound): namespaces not found\<newline>''
               else if take 3 argv = [''kubectl'', ''create'', ''namespace'']
               then completed 1 [] ''Error from server (AlreadyExists): namespaces already exists\<newline>''
               else completed 0 [] [])
       None"

fun is_create :: "event \<Rightarrow> bool" where
  "is_create (Exec argv) = (take 3 argv = [''kubectl'', ''create'', ''namespace''])"
| "is_create _ = False"

definition creates :: "event list \<Rightarrow> nat" where
  "creates tr = length (filter is_create tr)"

definition namespace_absent :: world where
  "namespace_absent =
     static_world
       (\<lambda>argv. if take 3 argv = [''kubectl'', ''get'', ''namespace'']
               then completed 1 [] ''Error from server (NotFound): namespaces not found\<newline>''
               else completed 0 [] [])
       None"

section \<open>The deploy workflows\<close>

text \<open>
  \<open>and_then\<close> runs the rest of a function after a step that returned, and passes on the end
  of the run otherwise. \<open>checked_run\<close> is \<open>subprocess.run(argv, check=True)\<close> where nothing
  catches the \<open>CalledProcessError\<close>; \<open>py_input\<close> is \<open>input(prompt)\<close>, which raises
  \<open>EOFError\<close> at the end of the input.
\<close>

definition and_then :: "'a result \<Rightarrow> ('a \<Rightarrow> event list \<Rightarrow> 'b result) \<Rightarrow> 'b result" where
  "and_then r f = (case r of (Inl a, tr) \<Rightarrow> (Inl a, tr) | (Inr v, tr) \<Rightarrow> f v tr)"

definition checked_run :: "world \<Rightarrow> string list \<Rightarrow> event list \<Rightarrow> completed_process result" where
  "checked_run w argv tr =
     (case subprocess_run w argv tr of
        (res, tr1) \<Rightarrow> if returncode res \<noteq> 0 then (Inl (Uncaught CalledProcessError), tr1)
                     else (Inr res, tr1))"

definition py_input :: "world \<Rightarrow> string \<Rightarrow> event list \<Rightarrow> string result" where
  "py_input w prompt tr =
     (case answer w tr prompt of
        None \<Rightarrow> (Inl (Uncaught EOFError), tr @ [Prompt prompt])
      | Some line \<Rightarrow> (Inr line, tr @ [Prompt prompt]))"

subsection \<open>deploy\_mysql.py\<close>

definition namespace_dir :: string where
  "namespace_dir = ''/opt/minikube/namespaces/database''"

definition required_files :: "string list" where
  "required_files = [''debug-pod.yaml'', ''init-db.sql'', ''mysql.yaml'', ''phpmyadmin.yaml'']"

definition verify_user :: "world \<Rightarrow> event list \<Rightarrow> unit result" where
  "verify_user w tr =
     (if current_user w \<noteq> ''muser''
      then (Inl (SysExit 1),
            tr @ [Message ''Error: This script must be run by 'muser'. Current user: {current_user}''])
      else (Inr (), tr))"

definition verify_directories :: "world \<Rightarrow> event list \<Rightarrow> unit result" where
  "verify_directories w tr =
     (if \<not> fs w tr (MakeDirs namespace_dir) then (Inl (Uncaught OSError), tr)
      else if \<not> fs w (tr @ [FS (MakeDirs namespace_dir)]) (Chdir namespace_dir)
      then (Inl (Uncaught OSError), tr @ [FS (MakeDirs namespace_dir)])
      else (Inr (), tr @ [FS (MakeDirs namespace_dir), FS (Chdir namespace_dir)]))"

definition verify_files :: "world \<Rightarrow> event list \<Rightarrow> unit result" where
  "verify_files w tr =
     (let missing_files = filter (\<lambda>f. \<not> fs w tr (Exists (namespace_dir @ ''/'' @ f))) required_files
      in if missing_files \<noteq> [] then
           (let tr1 = tr @ [Message ''Missing files: {missing_files}. Fetching from GitHub...'']
            in if fs w tr1 (CloneFrom ''https://github.com/TechSavvyRC/database.git'' namespace_dir)
               then (Inr (),
                     tr1 @ [FS (CloneFrom ''https://github.com/TechSavvyRC/database.git'' namespace_dir),
                            Message ''Successfully fetched files from GitHub''])
               else (Inl (SysExit 1), tr1 @ [Message ''Error fetching files: {str(e)}'']))
         else (Inr (), tr))"

definition check_minikube_status :: "world \<Rightarrow> event list \<Rightarrow> unit result" where
  "check_minikube_status w tr =
     (case subprocess_run w [''minikube'', ''status''] tr of
        (res, tr1) \<Rightarrow>
          if \<not> py_in ''Running'' (stdout res)
          then (Inl (SysExit 1),
                tr1 @ [Message ''Error: Minikube is not running. Please start Minikube first.''])
          else (Inr (), tr1))"

definition separator :: string where
  "separator = replicate 98 (CHR ''-'')"

definition display_resources :: "world \<Rightarrow> event list \<Rightarrow> event list" where
  "display_resources w tr =
     (case get_namespace_resources w tr of
        (resources, tr1) \<Rightarrow>
          tr1 @ [Message (CHR 0x0A # separator),
                 Message ''## Resources Running Under 'database' Namespace'',
                 Message separator,
                 Message resources,
                 Message (separator @ [CHR 0x0A])])"

definition check_existing_resources :: "world \<Rightarrow> event list \<Rightarrow> string \<times> event list" where
  "check_existing_resources w tr =
     (case get_namespace_resources w tr of
        (resources, tr1) \<Rightarrow> (check_existing_resources_of resources, tr1))"

text \<open>
  \<open>wait_for_pods_ready\<close>: at most 30 attempts, 10 seconds apart; an attempt succeeds when
  the listing of the phases succeeds and mentions \<open>Running\<close>.
\<close>

function wait_for_pods_ready_from :: "world \<Rightarrow> string \<Rightarrow> nat \<Rightarrow> event list \<Rightarrow> bool \<times> event list" where
  "wait_for_pods_ready_from w app_label attempts tr =
     (if attempts < 30 then
        (case subprocess_run w
                [''kubectl'', ''get'', ''pods'', ''-n'', ''database'', ''-l'', ''app='' @ app_label,
                 ''-o'', ''custom-columns=:status.phase''] tr of
           (res, tr1) \<Rightarrow>
             if returncode res = 0 \<and> py_in ''Running'' (stdout res) then (True, tr1)
             else wait_for_pods_ready_from w app_label (attempts + 1) (tr1 @ [Sleep 10]))
      else (False, tr))"
  by pat_completeness auto
termination
  by (relation "measure (\<lambda>(w, app_label, attempts, tr). 30 - attempts)") auto

definition wait_for_pods_ready :: "world \<Rightarrow> string \<Rightarrow> event list \<Rightarrow> bool \<times> event list" where
  "wait_for_pods_ready w app_label tr = wait_for_pods_ready_from w app_label 0 tr"

definition handle_kubectl_output :: "string \<Rightarrow> event list \<Rightarrow> event list" where
  "handle_kubectl_output output tr = (if strip output \<noteq> [] then tr @ [Message (strip output)] else tr)"

definition deploy_resources :: "world \<Rightarrow> bool \<Rightarrow> event list \<Rightarrow> unit result" where
  "deploy_resources w delete_namespace tr =
     and_then
       (if delete_namespace then
          and_then (checked_run w [''kubectl'', ''delete'', ''namespace'', ''database''] tr)
            (\<lambda>res tr1.
               and_then (time_sleep 10 (handle_kubectl_output (stdout res) tr1))
                 (\<lambda>_ tr2. manage_namespace w tr2))
        else (Inr (), tr))
       (\<lambda>_ tr3.
          and_then (checked_run w [''kubectl'', ''apply'', ''-f'', ''mysql.yaml'', ''-n'', ''database''] tr3)
            (\<lambda>res tr4.
               case wait_for_pods_ready w ''mysql'' (handle_kubectl_output (stdout res) tr4) of
                 (ready, tr5) \<Rightarrow>
                   if \<not> ready
                   then (Inl (SysExit 1),
                         tr5 @ [Message ''Error: MySQL pods failed to reach ready state''])
                   else
                     and_then
                       (checked_run w
                          [''kubectl'', ''apply'', ''-f'', ''phpmyadmin.yaml'', ''-n'', ''database''] tr5)
                       (\<lambda>res tr6.
                          case wait_for_pods_ready w ''phpmyadmin''
                                 (handle_kubectl_output (stdout res) tr6) of
                            (ready, tr7) \<Rightarrow>
                              if \<not> ready
                              then (Inl (SysExit 1),
                                    tr7 @ [Message ''Error: PhpMyAdmin pods failed to reach ready state''])
                              else (Inr (), tr7))))"

text \<open>
  \<open>DeploymentManager.run\<close>, in two parts: the checks before the namespace is looked at
  (lines 203 to 207) and the reconciliation (lines 209 to 231).
\<close>

definition run_preconditions :: "world \<Rightarrow> event list \<Rightarrow> unit result" where
  "run_preconditions w tr =
     and_then (verify_user w tr) (\<lambda>_ tr.
     and_then (verify_directories w tr) (\<lambda>_ tr.
     and_then (verify_files w tr) (\<lambda>_ tr.
     and_then (check_minikube_status w tr) (\<lambda>_ tr.
       manage_namespace w tr))))"

definition run_reconcile :: "world \<Rightarrow> event list \<Rightarrow> unit result" where
  "run_reconcile w tr =
     (case check_existing_resources w tr of
        (resource_status, tr) \<Rightarrow>
          if resource_status = ''expected'' then
            (Inr (),
             display_resources w (tr @ [Message ''Current resources in database namespace:''])
               @ [Message ''Deployment already exists with expected resources''])
          else
            and_then
              (if resource_status = ''mixed'' then
                 and_then
                   (py_input w ''Do you want to delete the namespace and start fresh? (yes/no): ''
                      (display_resources w
                         (tr @ [Message ''Found existing resources in database namespace:''])))
                   (\<lambda>response tr.
                      if lower response = ''yes'' then deploy_resources w True tr
                      else deploy_resources w False tr)
               else deploy_resources w False tr)
              (\<lambda>_ tr.
                 (Inr (),
                  display_resources w (tr @ [Message ''Final deployment status:''])
                    @ [Message ''Deployment completed successfully''])))"

definition run :: "world \<Rightarrow> event list \<Rightarrow> unit result" where
  "run w tr = and_then (run_preconditions w tr) (\<lambda>_ tr. run_reconcile w tr)"

subsection \<open>deploy\_ecom\_app.py\<close>

definition BASE_DIR :: string where
  "BASE_DIR = ''/opt/minikube/namespaces/application/''"

definition REQUIRED_FILES :: "string list" where
  "REQUIRED_FILES = [''Dockerfile'', ''ecom_app.yaml'', ''ecom_transactions.py'', ''debug_pod.yaml'']"

definition check_user :: "world \<Rightarrow> event list \<Rightarrow> unit result" where
  "check_user w tr =
     (if current_user w \<noteq> ''muser''
      then (Inl (SysExit 1), tr @ [Message ''This script must be executed by 'muser'.''])
      else (Inr (), tr @ [Message ''User check passed: running as 'muser'.'']))"

definition ensure_directory :: "world \<Rightarrow> string \<Rightarrow> event list \<Rightarrow> unit result" where
  "ensure_directory w directory tr =
     (if \<not> fs w tr (Exists directory) then
        (if fs w tr (MakeDirs directory)
         then (Inr (), tr @ [FS (MakeDirs directory), Message ''Created directory: {directory}''])
         else (Inl (SysExit 1), tr @ [Message ''Failed to create directory {directory}: {e}'']))
      else (Inr (), tr))"

definition change_directory :: "world \<Rightarrow> string \<Rightarrow> event list \<Rightarrow> unit result" where
  "change_directory w directory tr =
     (if fs w tr (Chdir directory)
      then (Inr (), tr @ [FS (Chdir directory), Message ''Changed directory to {directory}''])
      else (Inl (SysExit 1), tr @ [Message ''Failed to change directory to {directory}: {e}'']))"

text \<open>
  The loop of \<open>fetch_files\<close> over the required files. A file that the clone does not
  hold ends the run by \<open>sys.exit(1)\<close>, which \<open>except Exception\<close> does not catch; a copy
  that fails raises, and the handler of \<open>fetch_files\<close> reports and exits.
\<close>

fun fetch_loop :: "world \<Rightarrow> string list \<Rightarrow> event list \<Rightarrow> unit result" where
  "fetch_loop w [] tr = (Inr (), tr)"
| "fetch_loop w (file # rest) tr =
     (if fs w tr (IsFile (''temp_repo/'' @ file)) then
        (if fs w tr (Copy (''temp_repo/'' @ file) ''.'')
         then fetch_loop w rest
                (tr @ [FS (Copy (''temp_repo/'' @ file) ''.''), Message ''Fetched {file} from repository.''])
         else (Inl (SysExit 1), tr @ [Message ''Failed to fetch files from GitHub: {e}'']))
      else (Inl (SysExit 1), tr @ [Message ''{file} not found in repository.'']))"

definition fetch_files :: "world \<Rightarrow> event list \<Rightarrow> unit result" where
  "fetch_files w tr =
     (case subprocess_run w
             [''git'', ''clone'', ''https://github.com/TechSavvyRC/application.git'', ''temp_repo''] tr of
        (res, tr1) \<Rightarrow>
          if returncode res \<noteq> 0
          then (Inl (SysExit 1), tr1 @ [Message ''Failed to fetch files from GitHub: {e}''])
          else and_then (fetch_loop w REQUIRED_FILES tr1)
                 (\<lambda>_ tr2.
                    if fs w tr2 (Rmtree ''temp_repo'') then (Inr (), tr2 @ [FS (Rmtree ''temp_repo'')])
                    else (Inl (SysExit 1), tr2 @ [Message ''Failed to fetch files from GitHub: {e}''])))"

definition ecom_verify_files :: "world \<Rightarrow> event list \<Rightarrow> unit result" where
  "ecom_verify_files w tr =
     (let missing = filter (\<lambda>f. \<not> fs w tr (IsFile f)) REQUIRED_FILES
      in if missing \<noteq> []
         then fetch_files w (tr @ [Message ''Missing files: {missing}. Fetching from GitHub repository...''])
         else (Inr (), tr @ [Message ''All required files are present.'']))"

definition ecom_check_minikube_status :: "world \<Rightarrow> event list \<Rightarrow> unit result" where
  "ecom_check_minikube_status w tr =
     (case subprocess_run w [''minikube'', ''status''] tr of
        (res, tr1) \<Rightarrow>
          if returncode res \<noteq> 0 \<or> \<not> py_in ''Running'' (stdout res)
          then (Inl (SysExit 1),
                tr1 @ [Message ''Minikube is not running. Please start Minikube (e.g. 'minikube start') and try again.''])
          else (Inr (), tr1 @ [Message ''Minikube status: Running'']))"

definition ecom_display_resources :: "string \<Rightarrow> event list \<Rightarrow> event list" where
  "ecom_display_resources resources_output tr =
     tr @ [Message (replicate 97 (CHR ''-'') @ [CHR 0x0A]
                     @ ''## Resources Running Under Application Namespace'' @ [CHR 0x0A]
                     @ replicate 97 (CHR ''-'')),
           Message resources_output,
           Message (replicate 97 (CHR ''-'')),
           Message ''Displayed resources under the 'application' namespace.'']"

definition ecom_deploy_resources :: "world \<Rightarrow> event list \<Rightarrow> unit result" where
  "ecom_deploy_resources w tr =
     (case subprocess_run w [''kubectl'', ''apply'', ''-f'', ''ecom_app.yaml''] tr of
        (res, tr1) \<Rightarrow>
          if returncode res \<noteq> 0
          then (Inl (SysExit 1),
                tr1 @ [Message ''Failed to deploy ecommerce application resource: {e}''])
          else (Inr (), tr1 @ [Message ''Deployment command executed successfully.'']))"

text \<open>
  \<open>manage_existing_resources\<close> returns \<open>True\<close> when the deployment should proceed; its bare
  \<open>return\<close> gives \<open>None\<close>, which the caller tests with \<open>not\<close> and which is \<open>False\<close> here.
\<close>

definition manage_existing_resources :: "world \<Rightarrow> string \<Rightarrow> event list \<Rightarrow> bool result" where
  "manage_existing_resources w namespace tr =
     (case get_resources w namespace tr of
        (resources_output, tr1) \<Rightarrow>
          if resources_output \<noteq> [] then
            (case resources_belong_to_app resources_output of
               Inl e \<Rightarrow> (Inl (Uncaught e), tr1)
             | Inr belong \<Rightarrow>
                 if belong then
                   (Inr False,
                    ecom_display_resources resources_output
                      (tr1 @ [Message ''All running resources belong to 'ecommerce-application'.''])
                      @ [Message ''Exiting since application resources are already running.''])
                 else
                   and_then
                     (py_input w
                        ''Enter 'continue' to deploy without deleting, or 'delete' to delete the namespace and deploy new resources: ''
                        (ecom_display_resources resources_output
                           (tr1 @ [Message ''Some resources are already running under the 'application' namespace:''])))
                     (\<lambda>line tr2.
                        let choice = lower (strip line)
                        in if choice = ''delete'' then
                             and_then
                               (checked_run w [''kubectl'', ''delete'', ''namespace'', namespace]
                                  (tr2 @ [Message ''User opted to delete the namespace.'']))
                               (\<lambda>_ tr3.
                                  and_then (time_sleep 5 tr3)
                                    (\<lambda>_ tr4.
                                       and_then (ensure_namespace w namespace tr4)
                                         (\<lambda>_ tr5. (Inr True, tr5))))
                           else if choice = ''continue'' then
                             (Inr True,
                              tr2 @ [Message ''User opted to continue without deleting the namespace.''])
                           else (Inl (SysExit 1), tr2 @ [Message ''Invalid selection. Exiting.''])))
          else (Inr True, tr1 @ [Message ''No resources found in namespace '{namespace}'.'']))"

definition display_deployed_resources :: "world \<Rightarrow> string \<Rightarrow> event list \<Rightarrow> event list" where
  "display_deployed_resources w namespace tr =
     (case get_resources w namespace tr of
        (resources_output, tr1) \<Rightarrow>
          if resources_output \<noteq> [] then ecom_display_resources resources_output tr1
          else tr1 @ [Message ''No resources found in namespace '{namespace}' after deployment.''])"

text \<open>
  \<open>perform_installation\<close>, in two parts: the checks up to \<open>ensure_namespace\<close> (lines 243
  to 248) and the rest.
\<close>

definition installation_preconditions :: "world \<Rightarrow> event list \<Rightarrow> unit result" where
  "installation_preconditions w tr =
     and_then (check_user w tr) (\<lambda>_ tr.
     and_then (ensure_directory w BASE_DIR tr) (\<lambda>_ tr.
     and_then (change_directory w BASE_DIR tr) (\<lambda>_ tr.
     and_then (ecom_verify_files w tr) (\<lambda>_ tr.
     and_then (ecom_check_minikube_status w tr) (\<lambda>_ tr.
       ensure_namespace w ''application'' tr)))))"

definition perform_installation :: "world \<Rightarrow> event list \<Rightarrow> unit result" where
  "perform_installation w tr =
     and_then (installation_preconditions w tr) (\<lambda>_ tr.
     and_then (manage_existing_resources w ''application'' tr) (\<lambda>proceed tr.
       if \<not> proceed then (Inr (), tr)
       else
         and_then (ecom_deploy_resources w tr) (\<lambda>_ tr.
           (Inr (),
            display_deployed_resources w ''application'' tr
              @ [Message ''Ecommerce application resource deployment under the 'application' namespace is successful.'']))))"

subsection \<open>deploy\_kafka.py: the choice of the operator and the fresh namespace\<close>

text \<open>
  Step 6 of \<open>deploy_kafka_and_redpanda\<close>, when extraneous resources were found: the loop
  asks until the stripped answer is \<open>1\<close> or \<open>2\<close>. It does not end while the operator
  keeps typing something else, so its result is an \<open>option\<close>.
\<close>

partial_function (option) kafka_choice :: "world \<Rightarrow> event list \<Rightarrow> string result option" where
  "kafka_choice w tr =
     (case answer w tr ''Enter your choice (1 or 2): '' of
        None \<Rightarrow>
          Some (Inl (SysExit 1),
                tr @ [Prompt ''Enter your choice (1 or 2): '', Message ''No input provided. Exiting.''])
      | Some line \<Rightarrow>
          if strip line \<in> set [''1'', ''2'']
          then Some (Inr (strip line), tr @ [Prompt ''Enter your choice (1 or 2): ''])
          else kafka_choice w
                 (tr @ [Prompt ''Enter your choice (1 or 2): '',
                        Message ''Invalid input. Please enter 1 or 2.'']))"

declare kafka_choice.simps [code]

text \<open>
  Step 7, when the choice is \<open>2\<close>. \<open>await_deletion\<close> is the loop \<open>for i in range(30)\<close>,
  with the number of rounds that are left: it sleeps 2 seconds, asks for the namespace,
  and leaves at the first answer that does not find it.
\<close>

fun await_deletion :: "world \<Rightarrow> nat \<Rightarrow> event list \<Rightarrow> event list" where
  "await_deletion w 0 tr = tr"
| "await_deletion w (Suc n) tr =
     (case subprocess_run w [''kubectl'', ''get'', ''namespace'', ''streaming''] (tr @ [Sleep 2]) of
        (res, tr1) \<Rightarrow>
          if returncode res \<noteq> 0 then tr1 @ [Message ''Namespace '%s' deleted.'']
          else await_deletion w n tr1)"

definition kafka_recreate_namespace :: "world \<Rightarrow> event list \<Rightarrow> unit result" where
  "kafka_recreate_namespace w tr =
     (case subprocess_run w [''kubectl'', ''delete'', ''namespace'', ''streaming'']
             (tr @ [Message ''Deleting namespace '%s'...'']) of
        (deleted, tr1) \<Rightarrow>
          if returncode deleted \<noteq> 0
          then (Inl (SysExit 1), tr1 @ [Message ''Failed to delete or re-create namespace '%s': %s''])
          else
            (case subprocess_run w [''kubectl'', ''create'', ''namespace'', ''streaming'']
                    (await_deletion w 30 tr1) of
               (created, tr2) \<Rightarrow>
                 if returncode created \<noteq> 0
                 then (Inl (SysExit 1),
                       tr2 @ [Message ''Failed to delete or re-create namespace '%s': %s''])
                 else (Inr (), tr2 @ [Message ''Namespace '%s' re-created for fresh deployment.''])))"

subsection \<open>Observing a workflow\<close>

text \<open>
  The manifests applied, the namespaces deleted and the commands that change the cluster
  (apply, delete, create) in a run.
\<close>

fun is_apply :: "event \<Rightarrow> bool" where
  "is_apply (Exec argv) = (take 2 argv = [''kubectl'', ''apply''])"
| "is_apply _ = False"

fun is_delete :: "event \<Rightarrow> bool" where
  "is_delete (Exec argv) = (take 2 argv = [''kubectl'', ''delete''])"
| "is_delete _ = False"

fun is_mutation :: "event \<Rightarrow> bool" where
  "is_mutation (Exec argv) =
     (take 2 argv \<in> set [[''kubectl'', ''apply''], [''kubectl'', ''delete''], [''kubectl'', ''create'']])"
| "is_mutation _ = False"

definition applies :: "event list \<Rightarrow> nat" where
  "applies tr = length (filter is_apply tr)"

definition deletes :: "event list \<Rightarrow> nat" where
  "deletes tr = length (filter is_delete tr)"

definition mutations :: "event list \<Rightarrow> nat" where
  "mutations tr = length (filter is_mutation tr)"

text \<open>
  \<open>cluster_listing listing reply\<close> is a cluster whose namespace exists and lists as
  \<open>listing\<close>, with an operator who gives the answer \<open>reply\<close> to every question. Every
  command succeeds, Minikube is running and the pods of the applied manifests are in phase
  \<open>Running\<close>. The three listings are a namespace with one foreign pod, a namespace with
  the pods of deploy\_mysql.py, and one with the pod of deploy\_ecom\_app.py.
\<close>

definition cluster_listing :: "string \<Rightarrow> string \<Rightarrow> world" where
  "cluster_listing listing reply =
     static_world
       (\<lambda>argv. if take 3 argv = [''kubectl'', ''get'', ''all''] then completed 0 listing []
               else if take 3 argv = [''kubectl'', ''get'', ''pods'']
               then completed 0 (CHR 0x0A # ''Running'' @ [CHR 0x0A]) []
               else if argv = [''minikube'', ''status'']
               then completed 0 (''host: Running'' @ [CHR 0x0A]) []
               else completed 0 [] [])
       (Some reply)"

definition foreign_pod_listing :: string where
  "foreign_pod_listing =
     ''NAME          READY   STATUS    RESTARTS   AGE\<newline>'' @
     ''pod/foo-bar   1/1     Running   0          3m\<newline>''"

definition mysql_pods_listing :: string where
  "mysql_pods_listing =
     ''NAME                              READY   STATUS    RESTARTS   AGE\<newline>'' @
     ''pod/mysql-0                       1/1     Running   0          3m\<newline>'' @
     ''pod/phpmyadmin-6c9d5b7f4d-x2x8k   1/1     Running   0          2m\<newline>''"

definition ecom_pod_listing :: string where
  "ecom_pod_listing =
     ''NAME                                         READY   STATUS    RESTARTS   AGE\<newline>'' @
     ''pod/ecommerce-application-7d9c6b5f8b-abcde   1/1     Running   0          3m\<newline>''"

subsection \<open>Observing the recreation of a namespace\<close>

text \<open>
  \<open>ns_checks\<close> counts the existence checks of a run, and \<open>poll_rounds k\<close> is \<open>k\<close> rounds
  of the deletion poll of deploy\_kafka.py: sleep 2 seconds, ask for the namespace.
  \<open>live_cluster\<close> is a cluster in which a delete removes the namespace at once and a
  create brings it back; in \<open>lingering_cluster k\<close> the first \<open>k\<close> existence checks still
  find the namespace, and the later ones do not.
\<close>

fun is_ns_check :: "event \<Rightarrow> bool" where
  "is_ns_check (Exec argv) = (take 3 argv = [''kubectl'', ''get'', ''namespace''])"
| "is_ns_check _ = False"

definition ns_checks :: "event list \<Rightarrow> nat" where
  "ns_checks tr = length (filter is_ns_check tr)"

definition poll_rounds :: "nat \<Rightarrow> event list" where
  "poll_rounds k = concat (replicate k [Sleep 2, Exec [''kubectl'', ''get'', ''namespace'', ''streaming'']])"

definition namespace_present :: "event list \<Rightarrow> bool" where
  "namespace_present h = foldl (\<lambda>present e. if is_delete e then False else if is_create e then True else present) True h"

definition live_cluster :: "string \<Rightarrow> string \<Rightarrow> world" where
  "live_cluster listing reply =
     \<lparr>exec = (\<lambda>h argv.
         if take 3 argv = [''kubectl'', ''get'', ''namespace'']
         then (if namespace_present h then completed 0 [] []
               else completed 1 [] ''Error from server (NotFound): namespaces not found\<newline>'')
         else if take 3 argv = [''kubectl'', ''get'', ''all'']
         then completed 0 (if deletes h = 0 then listing else []) []
         else if take 3 argv = [''kubectl'', ''get'', ''pods'']
         then completed 0 (CHR 0x0A # ''Running'' @ [CHR 0x0A]) []
         else if argv = [''minikube'', ''status'']
         then completed 0 (''host: Running'' @ [CHR 0x0A]) []
         else completed 0 [] []),
      shell = (\<lambda>h cmd. completed 0 [] []),
      answer = (\<lambda>h question. Some reply),
      current_user = ''muser'',
      fs = (\<lambda>h op. True)\<rparr>"

definition lingering_cluster :: "nat \<Rightarrow> world" where
  "lingering_cluster k =
     \<lparr>exec = (\<lambda>h argv.
         if take 3 argv = [''kubectl'', ''get'', ''namespace'']
         then (if ns_checks h < k then completed 0 [] []
               else completed 1 [] ''Error from server (NotFound): namespaces not found\<newline>'')
         else completed 0 [] []),
      shell = (\<lambda>h cmd. completed 0 [] []),
      answer = (\<lambda>h question. Some ''2''),
      current_user = ''muser'',
      fs = (\<lambda>h op. True)\<rparr>"

fun is_message :: "event \<Rightarrow> bool" where
  "is_message (Message m) = True"
| "is_message _ = False"

section \<open>Properties of the string operations\<close>

lemma startswith_prefix: "startswith s p \<longleftrightarrow> prefix p s"
  unfolding startswith_def
  by (metis append_eq_conv_conj prefix_def take_is_prefix)

lemma py_in_sublist: "py_in sub s \<longleftrightarrow> sublist sub s"
  by (induction s) (auto simp: startswith_prefix sublist_Cons_right)

lemma split_on_nonempty: "split_on sep s \<noteq> []"
  by (induction s) (auto split: list.splits)

lemma split_on_hd_prefix: "split_on sep s = l0 # ls \<Longrightarrow> prefix l0 s"
  by (induction s arbitrary: l0 ls) (auto split: if_splits list.splits)

lemma split_on_sublist: "l \<in> set (split_on sep s) \<Longrightarrow> sublist l s"
proof (induction s arbitrary: l)
  case Nil
  then show ?case by simp
next
  case (Cons c cs)
  show ?case
  proof (cases "c = sep")
    case True
    with Cons show ?thesis by (auto simp: sublist_Cons_right)
  next
    case False
    obtain l0 ls where sp: "split_on sep cs = l0 # ls"
      using split_on_nonempty by (cases "split_on sep cs") auto
    with False Cons.prems have "l = c # l0 \<or> l \<in> set ls" by auto
    then show ?thesis
    proof
      assume "l = c # l0"
      have "prefix l0 cs" using sp by (rule split_on_hd_prefix)
      then show ?thesis using \<open>l = c # l0\<close> by (simp add: sublist_Cons_right)
    next
      assume "l \<in> set ls"
      then show ?thesis using Cons.IH sp by (auto simp: sublist_Cons_right)
    qed
  qed
qed

lemma scan_unexpected_iff:
  "scan_unexpected ls \<longleftrightarrow>
     (\<exists>l\<in>set ls. \<not> mentions_mysql l \<and> l \<noteq> [] \<and> \<not> startswith l ''NAME'')"
  by (induction ls) auto

lemma strip_Nil_iff: "strip s = [] \<longleftrightarrow> (\<forall>c\<in>set s. isspace c)"
proof
  assume "strip s = []"
  then have "\<forall>c\<in>set (dropWhile isspace s). isspace c"
    by (simp add: strip_def)
  then have "dropWhile isspace s = []"
    using hd_dropWhile[of isspace s] by (cases "dropWhile isspace s") auto
  then show "\<forall>c\<in>set s. isspace c" by (simp add: dropWhile_eq_Nil_conv)
next
  assume "\<forall>c\<in>set s. isspace c"
  then have "dropWhile isspace s = []" by (simp add: dropWhile_eq_Nil_conv)
  then show "strip s = []" by (simp only: strip_def rev.simps dropWhile.simps)
qed

lemma split_ws_from_Nil_iff:
  "split_ws_from cur s = [] \<longleftrightarrow> cur = [] \<and> (\<forall>c\<in>set s. isspace c)"
  by (induction cur s rule: split_ws_from.induct) auto

lemma split_ws_Nil_iff: "split_ws s = [] \<longleftrightarrow> strip s = []"
  by (simp add: split_ws_def split_ws_from_Nil_iff strip_Nil_iff)

lemma belong_loop_eq:
  "belong_loop ls =
     Inr (\<forall>l\<in>set ls. \<not> startswith l ''NAME'' \<and> strip l \<noteq> [] \<longrightarrow> ecom_owned l)"
  by (induction ls) (auto simp: ecom_owned_def split_ws_Nil_iff split: list.splits)

lemma mentions_within:
  assumes "l \<in> set (split_on sep s)" and "py_in kw (lower l)"
  shows "py_in kw (lower s)"
proof -
  have "sublist (lower l) (lower s)"
    unfolding lower_def using assms(1) by (intro map_mono_sublist split_on_sublist)
  with assms(2) show ?thesis
    unfolding py_in_sublist by (meson sublist_order.order_trans)
qed

lemma split_on_hd_prefix_of:
  "prefix kw s \<Longrightarrow> sep \<notin> set kw \<Longrightarrow> prefix kw (hd (split_on sep s))"
proof (induction s arbitrary: kw)
  case Nil
  then show ?case by simp
next
  case (Cons c cs)
  show ?case
  proof (cases kw)
    case Nil
    then show ?thesis by simp
  next
    case (Cons k ks)
    with Cons.prems have kc: "k = c" "c \<noteq> sep" "prefix ks cs" "sep \<notin> set ks" by auto
    from Cons.IH[OF kc(3,4)] have "prefix ks (hd (split_on sep cs))" .
    then show ?thesis using kc Cons split_on_nonempty[of sep cs]
      by (cases "split_on sep cs") auto
  qed
qed

lemma sublist_in_some_part:
  "sublist kw s \<Longrightarrow> sep \<notin> set kw \<Longrightarrow> \<exists>l\<in>set (split_on sep s). sublist kw l"
proof (induction s)
  case Nil
  then show ?case by simp
next
  case (Cons c cs)
  obtain l0 ls where sp: "split_on sep cs = l0 # ls"
    using split_on_nonempty by (cases "split_on sep cs") auto
  from Cons.prems(1) have "prefix kw (c # cs) \<or> sublist kw cs"
    by (simp add: sublist_Cons_right)
  then show ?case
  proof
    assume "prefix kw (c # cs)"
    from split_on_hd_prefix_of[OF this Cons.prems(2)]
    have "sublist kw (hd (split_on sep (c # cs)))" by (rule prefix_imp_sublist)
    moreover have "hd (split_on sep (c # cs)) \<in> set (split_on sep (c # cs))"
      using split_on_nonempty by (intro hd_in_set)
    ultimately show ?thesis by blast
  next
    assume "sublist kw cs"
    from Cons.IH[OF this Cons.prems(2)] obtain l where l: "l \<in> set (split_on sep cs)" "sublist kw l"
      by blast
    show ?thesis
    proof (cases "c = sep")
      case True
      with l show ?thesis by auto
    next
      case False
      from l(1) sp have "l = l0 \<or> l \<in> set ls" by auto
      then show ?thesis
      proof
        assume "l = l0"
        with l(2) have "sublist kw (c # l0)" by (simp add: sublist_Cons_right)
        with False sp show ?thesis by auto
      next
        assume "l \<in> set ls"
        with False sp l(2) show ?thesis by auto
      qed
    qed
  qed
qed

lemma split_on_map:
  assumes "\<And>c. f c = sep \<longleftrightarrow> c = sep"
  shows "split_on sep (map f s) = map (map f) (split_on sep s)"
  using assms split_on_nonempty[of sep]
  by (induction s) (auto split: list.splits)

lemma lower_char_newline: "lower_char c = CHR 0x0A \<longleftrightarrow> c = CHR 0x0A"
  by (auto simp: lower_char_def upper_letters_def lower_letters_def split: option.splits if_splits)

lemma mentioned_in_line:
  assumes "py_in kw (lower s)" and "CHR 0x0A \<notin> set kw"
  shows "\<exists>l\<in>set (split_on CHR 0x0A s). py_in kw (lower l)"
proof -
  from assms have "\<exists>l\<in>set (split_on CHR 0x0A (lower s)). sublist kw l"
    unfolding py_in_sublist by (rule sublist_in_some_part)
  moreover have "split_on CHR 0x0A (lower s) = map lower (split_on CHR 0x0A s)"
    unfolding lower_def by (rule split_on_map) (rule lower_char_newline)
  ultimately show ?thesis by (auto simp: py_in_sublist)
qed

section \<open>Classification\<close>

lemma mysql_mixed_iff:
  "check_existing_resources_of resources = ''mixed'' \<longleftrightarrow>
     (\<exists>l\<in>set (mysql_entries resources). \<not> mentions_mysql l)"
  by (auto simp: check_existing_resources_of_def scan_unexpected_iff mysql_entries_def)

lemma mysql_expected_if:
  assumes "mysql_entries resources \<noteq> []"
    and "\<forall>l\<in>set (mysql_entries resources). mentions_mysql l"
  shows "check_existing_resources_of resources = ''expected''"
proof -
  from assms(1) obtain l where l: "l \<in> set (mysql_entries resources)"
    by (cases "mysql_entries resources") auto
  with assms(2) have "mentions_mysql l" by blast
  moreover from l have "l \<in> set (split_on CHR 0x0A resources)"
    by (simp add: mysql_entries_def)
  ultimately have kw: "py_in ''mysql'' (lower resources) \<or> py_in ''phpmyadmin'' (lower resources)"
    unfolding mentions_mysql_def by (auto dest: mentions_within)
  have "resources \<noteq> []" using assms(1) by (auto simp: mysql_entries_def)
  moreover have "\<not> scan_unexpected (split_on CHR 0x0A resources)"
    using assms(2) by (auto simp: scan_unexpected_iff mysql_entries_def)
  ultimately show ?thesis using kw by (simp add: check_existing_resources_of_def)
qed

lemma ecom_classification_eq:
  "ecom_classification resources_output =
     Inr (if resources_output = [] then Empty
          else if \<forall>l\<in>set (ecom_entries resources_output). ecom_owned l then AllOwned
          else Mixed)"
  by (auto simp: ecom_classification_def resources_belong_to_app_def belong_loop_eq ecom_entries_def)

lemma mysql_empty_if:
  assumes none: "mysql_entries resources = []" and plain: "plain_headers resources"
  shows "check_existing_resources_of resources = ''empty''"
proof -
  have no_mention: "\<not> mentions_mysql l" if "l \<in> set (split_on CHR 0x0A resources)" for l
  proof (cases "l = []")
    case True
    then show ?thesis by (simp add: mentions_mysql_def lower_def)
  next
    case False
    with none that have "startswith l ''NAME''"
      by (auto simp: mysql_entries_def filter_empty_conv)
    with plain that show ?thesis by (auto simp: plain_headers_def)
  qed
  have "\<not> py_in kw (lower resources)" if "kw = ''mysql'' \<or> kw = ''phpmyadmin''" for kw
  proof
    assume "py_in kw (lower resources)"
    moreover have "CHR 0x0A \<notin> set kw" using that by auto
    ultimately obtain l where "l \<in> set (split_on CHR 0x0A resources)" "py_in kw (lower l)"
      using mentioned_in_line by blast
    with no_mention that show False by (auto simp: mentions_mysql_def)
  qed
  then have "\<not> py_in ''mysql'' (lower resources)" "\<not> py_in ''phpmyadmin'' (lower resources)"
    by blast+
  moreover have "\<not> scan_unexpected (split_on CHR 0x0A resources)"
    using none by (auto simp: scan_unexpected_iff mysql_entries_def filter_empty_conv)
  ultimately show ?thesis by (simp add: check_existing_resources_of_def)
qed


text \<open>
  C1, as stated, fails on deploy\_mysql.py: ownership is not decided on the name of an
  entry. For the listing of a namespace that holds only the foreign service
  \<open>service/foo-bar\<close>, whose row shows \<open>mysql.example.com\<close> in the EXTERNAL-IP column,
  the name is not owned and the classification is still \<open>expected\<close>, not \<open>mixed\<close>.
\<close>

theorem classification_row_match_counterexample:
  "mysql_entries foreign_service_listing
     = [''service/foo-bar   ExternalName   <none>       mysql.example.com   <none>    5m'']
   \<and> \<not> mysql_name_owned
         ''service/foo-bar   ExternalName   <none>       mysql.example.com   <none>    5m''
   \<and> check_existing_resources_of foreign_service_listing = ''expected''
   \<and> check_existing_resources_of foreign_service_listing \<noteq> ''mixed''"
  by code_simp

text \<open>
  C1, amended: the classification is the trichotomy of C1 over the entries, with the
  ownership of deploy\_mysql.py decided on the whole row. Both scripts are Mixed exactly
  when at least one entry is not owned, and a listing with at least one entry is AllOwned
  (\<open>expected\<close> in deploy\_mysql.py) exactly when every entry is owned. In deploy\_mysql.py
  a listing without entries is Empty when its header rows are plain; in deploy\_ecom\_app.py
  the empty listing text is Empty, and nothing is said of a non-empty text without
  entries.
\<close>

theorem classification_trichotomy:
  "(check_existing_resources_of r = ''mixed'' \<longleftrightarrow>
      (\<exists>l\<in>set (mysql_entries r). \<not> mentions_mysql l))
   \<and> (mysql_entries r \<noteq> [] \<longrightarrow>
        (check_existing_resources_of r = ''expected'' \<longleftrightarrow>
           (\<forall>l\<in>set (mysql_entries r). mentions_mysql l)))
   \<and> (mysql_entries r = [] \<and> plain_headers r \<longrightarrow> check_existing_resources_of r = ''empty'')
   \<and> ecom_classification [] = Inr Empty
   \<and> (ecom_classification r = Inr Mixed \<longleftrightarrow> (\<exists>l\<in>set (ecom_entries r). \<not> ecom_owned l))
   \<and> (ecom_entries r \<noteq> [] \<longrightarrow>
        (ecom_classification r = Inr AllOwned \<longleftrightarrow> (\<forall>l\<in>set (ecom_entries r). ecom_owned l)))"
proof -
  have b: "check_existing_resources_of r = ''expected'' \<longleftrightarrow>
             (\<forall>l\<in>set (mysql_entries r). mentions_mysql l)"
    if ne: "mysql_entries r \<noteq> []"
  proof
    assume "check_existing_resources_of r = ''expected''"
    then have "check_existing_resources_of r \<noteq> ''mixed''" by simp
    then show "\<forall>l\<in>set (mysql_entries r). mentions_mysql l"
      unfolding mysql_mixed_iff by blast
  next
    assume "\<forall>l\<in>set (mysql_entries r). mentions_mysql l"
    with ne show "check_existing_resources_of r = ''expected''"
      by (rule mysql_expected_if)
  qed
  have d: "ecom_classification [] = Inr Empty"
    by (simp add: ecom_classification_def)
  have "ecom_entries [] = []"
    by (simp add: ecom_entries_def splitlines_def)
  then have e: "ecom_classification r = Inr Mixed \<longleftrightarrow> (\<exists>l\<in>set (ecom_entries r). \<not> ecom_owned l)"
    by (cases "r = []") (auto simp: ecom_classification_eq)
  have f: "ecom_classification r = Inr AllOwned \<longleftrightarrow> (\<forall>l\<in>set (ecom_entries r). ecom_owned l)"
    if "ecom_entries r \<noteq> []"
    using that \<open>ecom_entries [] = []\<close> by (cases "r = []") (auto simp: ecom_classification_eq)
  show ?thesis
    using mysql_mixed_iff [of r] b mysql_empty_if [of r] d e f by blast
qed

theorem classification_trichotomy_witness:
  "check_existing_resources_of
     ''NAME   READY\<newline>pod/mysql-0   1/1\<newline>pod/phpmyadmin-7   1/1\<newline>'' = ''expected''
   \<and> check_existing_resources_of ''NAME   READY\<newline>pod/foo-bar   1/1\<newline>'' = ''mixed''
   \<and> check_existing_resources_of [] = ''empty''
   \<and> ecom_classification ''NAME   READY\<newline>pod/ecommerce-application-5   1/1''
       = Inr AllOwned
   \<and> ecom_classification ''NAME   READY\<newline>pod/foo-bar   1/1'' = Inr Mixed"
proof -
  let ?owned = "''NAME   READY\<newline>pod/mysql-0   1/1\<newline>pod/phpmyadmin-7   1/1\<newline>''"
  let ?foreign = "''NAME   READY\<newline>pod/foo-bar   1/1\<newline>''"
  let ?nothing = "[] :: string"
  let ?app = "''NAME   READY\<newline>pod/ecommerce-application-5   1/1''"
  let ?other = "''NAME   READY\<newline>pod/foo-bar   1/1''"
  have e1: "mysql_entries ?owned = [''pod/mysql-0   1/1'', ''pod/phpmyadmin-7   1/1'']"
    by code_simp
  have o1: "mentions_mysql ''pod/mysql-0   1/1''" "mentions_mysql ''pod/phpmyadmin-7   1/1''"
    by code_simp+
  have e2: "mysql_entries ?foreign = [''pod/foo-bar   1/1'']"
    by code_simp
  have o2: "\<not> mentions_mysql ''pod/foo-bar   1/1''"
    by code_simp
  have e3: "mysql_entries ?nothing = []"
    by code_simp
  have p3: "plain_headers ?nothing"
    by code_simp
  have e4: "ecom_entries ?app = [''pod/ecommerce-application-5   1/1'']"
    by code_simp
  have o4: "ecom_owned ''pod/ecommerce-application-5   1/1''"
    by code_simp
  have e5: "ecom_entries ?other = [''pod/foo-bar   1/1'']"
    by code_simp
  have o5: "\<not> ecom_owned ''pod/foo-bar   1/1''"
    by code_simp
  show ?thesis
    using classification_trichotomy [of ?owned] classification_trichotomy [of ?foreign]
      classification_trichotomy [of ?nothing] classification_trichotomy [of ?app]
      classification_trichotomy [of ?other]
    by (simp add: e1 o1 e2 o2 e3 p3 e4 o4 e5 o5)
qed


section \<open>The readiness waiter\<close>

lemma kafka_check_lines_fst:
  "fst (kafka_check_lines ls b tr) \<longleftrightarrow>
     b \<and> (\<forall>r\<in>set (ready_column ls). \<exists>n. py_ratio r = Some (n, n))"
  by (induction ls b tr rule: kafka_check_lines.induct)
     (auto simp: ready_column_def Let_def split: option.splits)

lemma kafka_check_lines_polls: "polls (snd (kafka_check_lines ls b tr)) = polls tr"
  by (induction ls b tr rule: kafka_check_lines.induct)
     (auto simp: polls_def Let_def split: option.splits)

lemma dashboard_check_lines_fst:
  "fst (dashboard_check_lines ls b tr) \<longleftrightarrow> b \<and> (\<forall>r\<in>set (ready_column ls). r = ''1/1'')"
  by (induction ls b tr rule: dashboard_check_lines.induct)
     (auto simp: ready_column_def Let_def)

lemma dashboard_check_lines_polls: "polls (snd (dashboard_check_lines ls b tr)) = polls tr"
  by (induction ls b tr rule: dashboard_check_lines.induct)
     (auto simp: polls_def Let_def)


lemma polls_append [simp]: "polls (xs @ ys) = polls xs + polls ys"
  by (simp add: polls_def)

lemma polls_simps [simp]:
  "polls [] = 0" "polls (Shell c # tr) = Suc (polls tr)" "polls (Message m # tr) = polls tr"
  "polls (Sleep n # tr) = polls tr" "polls (Exec a # tr) = polls tr"
  "polls (Prompt q # tr) = polls tr"
  by (simp_all add: polls_def)

lemma wait_step_unready:
  assumes polls_kept: "\<And>ls t. polls (snd (check_lines ls True t)) = polls t"
    and fst_eq: "\<And>ls t. fst (check_lines ls True t) = R ls"
    and lt: "elapsed < timeout"
    and nonneg: "0 \<le> interval"
    and unready: "\<not> (poll_output w namespace (tr @ [Message ''Executing command: {cmd}'']) \<noteq> []
                    \<and> R (splitlines (poll_output w namespace (tr @ [Message ''Executing command: {cmd}'']))))"
  shows "\<exists>tr3. wait_for_pods_from check_lines ready_message w namespace timeout interval elapsed tr
             = wait_for_pods_from check_lines ready_message w namespace timeout interval
                 (elapsed + interval) tr3
           \<and> polls tr3 = Suc (polls tr)"
proof -
  let ?out = "poll_output w namespace (tr @ [Message ''Executing command: {cmd}''])"
  let ?tr1 = "tr @ [Message ''Executing command: {cmd}'', Shell (pods_command namespace)]"
  have rc: "run_command w (pods_command namespace) False tr = (Inr ?out, ?tr1)"
    by (simp add: run_command_def poll_output_def Let_def)
  show ?thesis
  proof (cases "?out = []")
    case True
    have "wait_for_pods_from check_lines ready_message w namespace timeout interval elapsed tr
          = wait_for_pods_from check_lines ready_message w namespace timeout interval
              (elapsed + interval) (?tr1 @ [Sleep interval])"
      using lt nonneg True rc
      by (subst wait_for_pods_from.simps) (simp add: time_sleep_def)
    then show ?thesis by (intro exI[of _ "?tr1 @ [Sleep interval]"]) simp
  next
    case False
    obtain b tr2 where chk: "check_lines (splitlines ?out) True ?tr1 = (b, tr2)"
      by (cases "check_lines (splitlines ?out) True ?tr1") auto
    have "\<not> b" using fst_eq[of "splitlines ?out" ?tr1] chk unready False by simp
    moreover have p2: "polls tr2 = Suc (polls tr)"
      using polls_kept[of "splitlines ?out" ?tr1] chk by simp
    ultimately have
      "wait_for_pods_from check_lines ready_message w namespace timeout interval elapsed tr
          = wait_for_pods_from check_lines ready_message w namespace timeout interval
              (elapsed + interval) (tr2 @ [Sleep interval])"
      using lt nonneg False rc chk
      by (subst wait_for_pods_from.simps) (simp add: time_sleep_def)
    then show ?thesis using p2 by (intro exI[of _ "tr2 @ [Sleep interval]"]) simp
  qed
qed

lemma wait_step_ready:
  assumes polls_kept: "\<And>ls t. polls (snd (check_lines ls True t)) = polls t"
    and fst_eq: "\<And>ls t. fst (check_lines ls True t) = R ls"
    and lt: "elapsed < timeout"
    and ready: "poll_output w namespace (tr @ [Message ''Executing command: {cmd}'']) \<noteq> []"
       "R (splitlines (poll_output w namespace (tr @ [Message ''Executing command: {cmd}''])))"
  shows "\<exists>tr'. wait_for_pods_from check_lines ready_message w namespace timeout interval elapsed tr
             = Some (Inr (), tr')
           \<and> polls tr' = Suc (polls tr) \<and> last tr' = Message ready_message"
proof -
  let ?out = "poll_output w namespace (tr @ [Message ''Executing command: {cmd}''])"
  let ?tr1 = "tr @ [Message ''Executing command: {cmd}'', Shell (pods_command namespace)]"
  have rc: "run_command w (pods_command namespace) False tr = (Inr ?out, ?tr1)"
    by (simp add: run_command_def poll_output_def Let_def)
  obtain b tr2 where chk: "check_lines (splitlines ?out) True ?tr1 = (b, tr2)"
    by (cases "check_lines (splitlines ?out) True ?tr1") auto
  have b using fst_eq[of "splitlines ?out" ?tr1] chk ready by simp
  moreover have p2: "polls tr2 = Suc (polls tr)"
    using polls_kept[of "splitlines ?out" ?tr1] chk by simp
  ultimately have
    "wait_for_pods_from check_lines ready_message w namespace timeout interval elapsed tr
       = Some (Inr (), tr2 @ [Message ready_message])"
    using lt ready rc chk
    by (subst wait_for_pods_from.simps) simp
  then show ?thesis using p2 by simp
qed

lemma wait_timeout_now:
  assumes "\<not> elapsed < timeout"
  shows "wait_for_pods_from check_lines ready_message w namespace timeout interval elapsed tr
           = Some (Inl (SysExit 1), tr @ [Message ''Timeout reached waiting for pods to be ready.''])"
  using assms by (subst wait_for_pods_from.simps) simp


lemma polls_left_0_iff:
  assumes "0 < interval"
  shows "polls_left timeout interval elapsed = 0 \<longleftrightarrow> \<not> elapsed < timeout"
proof -
  have "polls_left timeout interval elapsed = 0
          \<longleftrightarrow> \<not> 0 < (timeout - elapsed + interval - 1) div interval"
    by (simp add: polls_left_def not_less)
  also have "\<dots> \<longleftrightarrow> \<not> interval \<le> timeout - elapsed + interval - 1"
    using assms by (simp only: pos_imp_zdiv_pos_iff)
  also have "\<dots> \<longleftrightarrow> \<not> elapsed < timeout" by arith
  finally show ?thesis .
qed

lemma polls_left_step:
  assumes "0 < interval" and "elapsed < timeout"
  shows "polls_left timeout interval elapsed = Suc (polls_left timeout interval (elapsed + interval))"
proof -
  let ?a = "timeout - (elapsed + interval) + interval - 1"
  have nonneg: "0 \<le> ?a" using assms by arith
  have "timeout - elapsed + interval - 1 = ?a + interval" by arith
  moreover have "(?a + interval) div interval = ?a div interval + 1"
    using assms(1) by (intro div_add_self2) simp
  ultimately have "(timeout - elapsed + interval - 1) div interval = ?a div interval + 1"
    by (simp only:)
  moreover have "0 \<le> ?a div interval"
    using nonneg assms(1) by (simp add: pos_imp_zdiv_nonneg_iff)
  ultimately show ?thesis by (simp add: polls_left_def nat_add_distrib)
qed

lemma wait_ready_after:
  assumes polls_kept: "\<And>ls t. polls (snd (check_lines ls True t)) = polls t"
    and fst_eq: "\<And>ls t. fst (check_lines ls True t) = R ls"
    and nonneg: "0 \<le> interval"
    and unready: "\<And>h. polls tr \<le> polls h \<Longrightarrow> polls h < polls tr + k \<Longrightarrow>
        \<not> (poll_output w namespace h \<noteq> [] \<and> R (splitlines (poll_output w namespace h)))"
    and ready: "\<And>h. polls h = polls tr + k \<Longrightarrow>
        poll_output w namespace h \<noteq> [] \<and> R (splitlines (poll_output w namespace h))"
    and time: "elapsed + int k * interval < timeout"
  shows "\<exists>tr'. wait_for_pods_from check_lines ready_message w namespace timeout interval elapsed tr
             = Some (Inr (), tr')
           \<and> polls tr' = polls tr + k + 1 \<and> last tr' = Message ready_message"
  using unready ready time
proof (induction k arbitrary: elapsed tr)
  case 0
  then show ?case
    using wait_step_ready[where check_lines = check_lines and R = R and elapsed = elapsed
        and timeout = timeout and w = w and namespace = namespace and tr = tr
        and ready_message = ready_message and interval = interval, OF polls_kept fst_eq]
    by simp
next
  case (Suc k)
  have lt: "elapsed < timeout"
  proof -
    have "0 \<le> int (Suc k) * interval" using nonneg by simp
    with Suc.prems(3) show ?thesis by linarith
  qed
  have "\<not> (poll_output w namespace (tr @ [Message ''Executing command: {cmd}'']) \<noteq> []
          \<and> R (splitlines (poll_output w namespace (tr @ [Message ''Executing command: {cmd}'']))))"
    by (rule Suc.prems(1)) simp_all
  from wait_step_unready[where check_lines = check_lines and R = R
      and ready_message = ready_message, OF polls_kept fst_eq lt nonneg this]
  obtain tr3 where
    step: "wait_for_pods_from check_lines ready_message w namespace timeout interval elapsed tr
             = wait_for_pods_from check_lines ready_message w namespace timeout interval
                 (elapsed + interval) tr3"
    and p3: "polls tr3 = Suc (polls tr)"
    by blast
  have "\<exists>tr'. wait_for_pods_from check_lines ready_message w namespace timeout interval
                (elapsed + interval) tr3 = Some (Inr (), tr')
           \<and> polls tr' = polls tr3 + k + 1 \<and> last tr' = Message ready_message"
  proof (rule Suc.IH)
    fix h assume "polls tr3 \<le> polls h" "polls h < polls tr3 + k"
    then show "\<not> (poll_output w namespace h \<noteq> [] \<and> R (splitlines (poll_output w namespace h)))"
      using p3 by (intro Suc.prems(1)) simp_all
  next
    fix h assume "polls h = polls tr3 + k"
    then show "poll_output w namespace h \<noteq> [] \<and> R (splitlines (poll_output w namespace h))"
      using p3 by (intro Suc.prems(2)) simp
  next
    show "elapsed + interval + int k * interval < timeout"
      using Suc.prems(3) by (simp add: algebra_simps)
  qed
  then show ?case using step p3 by simp
qed

lemma wait_times_out:
  assumes polls_kept: "\<And>ls t. polls (snd (check_lines ls True t)) = polls t"
    and fst_eq: "\<And>ls t. fst (check_lines ls True t) = R ls"
    and pos: "0 < interval"
    and unready: "\<And>h. polls tr \<le> polls h \<Longrightarrow> polls h < polls tr + k \<Longrightarrow>
        \<not> (poll_output w namespace h \<noteq> [] \<and> R (splitlines (poll_output w namespace h)))"
    and k: "k = polls_left timeout interval elapsed"
  shows "\<exists>tr'. wait_for_pods_from check_lines ready_message w namespace timeout interval elapsed tr
             = Some (Inl (SysExit 1), tr')
           \<and> polls tr' = polls tr + k
           \<and> last tr' = Message ''Timeout reached waiting for pods to be ready.''"
  using unready k
proof (induction k arbitrary: elapsed tr)
  case 0
  then have "\<not> elapsed < timeout" using polls_left_0_iff[OF pos] by simp
  then show ?case by (simp add: wait_timeout_now)
next
  case (Suc k)
  have lt: "elapsed < timeout"
    using Suc.prems(2) polls_left_0_iff[OF pos, of timeout elapsed] by auto
  have left: "k = polls_left timeout interval (elapsed + interval)"
    using Suc.prems(2) polls_left_step[OF pos lt] by simp
  have "\<not> (poll_output w namespace (tr @ [Message ''Executing command: {cmd}'']) \<noteq> []
          \<and> R (splitlines (poll_output w namespace (tr @ [Message ''Executing command: {cmd}'']))))"
    by (rule Suc.prems(1)) simp_all
  from wait_step_unready[where check_lines = check_lines and R = R
      and ready_message = ready_message, OF polls_kept fst_eq lt less_imp_le[OF pos] this]
  obtain tr3 where
    step: "wait_for_pods_from check_lines ready_message w namespace timeout interval elapsed tr
             = wait_for_pods_from check_lines ready_message w namespace timeout interval
                 (elapsed + interval) tr3"
    and p3: "polls tr3 = Suc (polls tr)"
    by blast
  have "\<exists>tr'. wait_for_pods_from check_lines ready_message w namespace timeout interval
                (elapsed + interval) tr3 = Some (Inl (SysExit 1), tr')
           \<and> polls tr' = polls tr3 + k
           \<and> last tr' = Message ''Timeout reached waiting for pods to be ready.''"
  proof (rule Suc.IH)
    fix h assume "polls tr3 \<le> polls h" "polls h < polls tr3 + k"
    then show "\<not> (poll_output w namespace h \<noteq> [] \<and> R (splitlines (poll_output w namespace h)))"
      using p3 by (intro Suc.prems(1)) simp_all
  next
    show "k = polls_left timeout interval (elapsed + interval)" by (rule left)
  qed
  then show ?case using step p3 by simp
qed


lemma run_command_pods:
  "run_command w (pods_command namespace) False tr
     = (Inr (poll_output w namespace (tr @ [Message ''Executing command: {cmd}''])),
        tr @ [Message ''Executing command: {cmd}'', Shell (pods_command namespace)])"
  by (simp add: run_command_def poll_output_def Let_def)



lemma wait_ready_observed:
  assumes eq: "wait_for_pods_from check_lines ready_message w namespace timeout interval elapsed tr = Some y"
    and fst_eq: "\<And>ls t. fst (check_lines ls True t) = R ls"
    and r: "fst y = Inr ()"
  shows "\<exists>h. poll_output w namespace h \<noteq> [] \<and> R (splitlines (poll_output w namespace h))"
proof -
  have "(\<forall>ls t. fst (check_lines ls True t) = R ls) \<longrightarrow> fst y = Inr ()
          \<longrightarrow> (\<exists>h. poll_output w namespace h \<noteq> [] \<and> R (splitlines (poll_output w namespace h)))"
  proof (rule wait_for_pods_from.raw_induct[where P = "\<lambda>cl rm w ns t i e tr y.
           (\<forall>ls t. fst (cl ls True t) = R ls) \<longrightarrow> fst y = Inr ()
             \<longrightarrow> (\<exists>h. poll_output w ns h \<noteq> [] \<and> R (splitlines (poll_output w ns h)))",
           OF _ eq], goal_cases)
    case (1 f cl rm w ns t i e tr y)
    let ?h = "tr @ [Message ''Executing command: {cmd}'']"
    let ?tr1 = "tr @ [Message ''Executing command: {cmd}'', Shell (pods_command ns)]"
    show ?case
    proof (intro impI)
      assume k: "\<forall>ls t. fst (cl ls True t) = R ls" and r: "fst y = Inr ()"
      have k2: "cl ls True ?tr1 = (b, x2) \<Longrightarrow> b = R ls" for ls b x2
        using k[rule_format, of ls ?tr1] by simp
      show "\<exists>h. poll_output w ns h \<noteq> [] \<and> R (splitlines (poll_output w ns h))"
      proof (cases "poll_output w ns ?h \<noteq> [] \<and> R (splitlines (poll_output w ns ?h))")
        case True
        then show ?thesis by blast
      next
        case False
        then show ?thesis
          using "1"(2) r k
          by (auto simp add: run_command_pods time_sleep_def split: if_splits prod.splits
              dest!: k2 "1"(1))
      qed
    qed
  qed
  then show ?thesis using fst_eq r by blast
qed



lemma splitlines_from_Nil_iff: "splitlines_from cur s = [] \<longleftrightarrow> cur = [] \<and> s = []"
proof (induction cur s rule: splitlines_from.induct)
  case (1 cur)
  then show ?case by simp
next
  case (2 cur c cs)
  show ?case
  proof (cases "c = CHR 0x0D")
    case True
    then show ?thesis by (cases cs) simp_all
  next
    case False
    then show ?thesis using 2 by (cases "is_linebreak c") simp_all
  qed
qed
lemma splitlines_Nil_iff: "splitlines s = [] \<longleftrightarrow> s = []"
  by (simp add: splitlines_def splitlines_from_Nil_iff)

lemma kafka_fst: "fst (kafka_check_lines ls True t) = kafka_listing_ready ls"
  by (simp add: kafka_check_lines_fst kafka_listing_ready_def)

lemma dashboard_fst: "fst (dashboard_check_lines ls True t) = dashboard_listing_ready ls"
  by (simp add: dashboard_check_lines_fst dashboard_listing_ready_def)

lemma kafka_wait_for_pods_Some_iff:
  "kafka_wait_for_pods w namespace timeout interval tr = Some (r, tr') \<longleftrightarrow>
     (\<exists>r0. wait_for_pods_from kafka_check_lines
            ''All pods are ready (all containers in each pod are running).'' w namespace timeout
            interval 0
            (tr @ [Message ''Waiting for Streaming pods to be in Ready state (all containers ready)...''])
          = Some (r0, tr') \<and> r = map_sum id (\<lambda>_. True) r0)"
  by (auto simp: kafka_wait_for_pods_def)

lemma py_ratio_01: "py_ratio ''0/1'' = Some (0, 1)" by code_simp
lemma py_ratio_11: "py_ratio ''1/1'' = Some (1, 1)" by code_simp

lemma ready_column_nonempty: "ready_column (splitlines out) = r # rs \<Longrightarrow> out \<noteq> []"
  by (auto simp: splitlines_def ready_column_def)

lemma scripted_poll_output:
  "poll_output (scripted_pods listings) namespace h
     = strip (if polls h < length listings then listings ! polls h else [])"
  by (simp add: poll_output_def scripted_pods_def)

text \<open>
  C4: with poll interval 1 and timeout 10, a waiter whose first poll lists the pod with
  ready ratio 0/1 and whose second poll lists it with 1/1 returns Ready after exactly two
  polls; a waiter whose polls all list 0/1 during the timeout window ends with the
  time-out after exactly ten polls; once \<open>elapsed\<close> has reached \<open>timeout\<close> the waiter
  times out without another poll. In each case the outcome is the last event of the
  run: no poll follows it.
\<close>

theorem readiness_waiter_state_machine:
  assumes first: "\<forall>h. polls h = polls tr \<longrightarrow>
                    ready_column (splitlines (poll_output w1 namespace h)) = [''0/1'']"
    and second: "\<forall>h. polls h = polls tr + 1 \<longrightarrow>
                    ready_column (splitlines (poll_output w1 namespace h)) = [''1/1'']"
    and never: "\<forall>h. polls tr \<le> polls h \<and> polls h < polls tr + 10 \<longrightarrow>
                    ready_column (splitlines (poll_output w2 namespace h)) = [''0/1'']"
  shows "(\<exists>tr'. kafka_wait_for_pods w1 namespace 10 1 tr = Some (Inr True, tr')
             \<and> polls tr' = polls tr + 2
             \<and> last tr' = Message ''All pods are ready (all containers in each pod are running).'')
       \<and> (\<exists>tr'. kafka_wait_for_pods w2 namespace 10 1 tr = Some (Inl (SysExit 1), tr')
             \<and> polls tr' = polls tr + 10
             \<and> last tr' = Message ''Timeout reached waiting for pods to be ready.'')
       \<and> (\<forall>elapsed timeout interval w. timeout \<le> elapsed \<longrightarrow>
             wait_for_pods_from kafka_check_lines
               ''All pods are ready (all containers in each pod are running).'' w namespace
               timeout interval elapsed tr
             = Some (Inl (SysExit 1),
                     tr @ [Message ''Timeout reached waiting for pods to be ready.'']))"
proof -
  let ?msg = "''All pods are ready (all containers in each pod are running).''"
  let ?tr0 = "tr @ [Message ''Waiting for Streaming pods to be in Ready state (all containers ready)...'']"
  let ?R = kafka_listing_ready
  have p0: "polls ?tr0 = polls tr" by simp
  have "\<exists>tr'. wait_for_pods_from kafka_check_lines ?msg w1 namespace 10 1 0 ?tr0 = Some (Inr (), tr')
           \<and> polls tr' = polls ?tr0 + 1 + 1 \<and> last tr' = Message ?msg"
  proof (rule wait_ready_after[where R = ?R])
    fix h assume "polls ?tr0 \<le> polls h" "polls h < polls ?tr0 + 1"
    then have "polls h = polls tr" by simp
    with first have "ready_column (splitlines (poll_output w1 namespace h)) = [''0/1'']" by blast
    then show "\<not> (poll_output w1 namespace h \<noteq> [] \<and> ?R (splitlines (poll_output w1 namespace h)))"
      by (simp add: py_ratio_01 kafka_listing_ready_def)
  next
    fix h assume "polls h = polls ?tr0 + 1"
    then have "polls h = polls tr + 1" by simp
    with second have rc: "ready_column (splitlines (poll_output w1 namespace h)) = [''1/1'']" by blast
    then show "poll_output w1 namespace h \<noteq> [] \<and> ?R (splitlines (poll_output w1 namespace h))"
      using ready_column_nonempty[OF rc] by (simp add: py_ratio_11 kafka_listing_ready_def)
  qed (simp_all add: kafka_check_lines_polls kafka_fst)
  then have a: "\<exists>tr'. kafka_wait_for_pods w1 namespace 10 1 tr = Some (Inr True, tr')
             \<and> polls tr' = polls tr + 2 \<and> last tr' = Message ?msg"
    by (auto simp: kafka_wait_for_pods_Some_iff)
  have "\<exists>tr'. wait_for_pods_from kafka_check_lines ?msg w2 namespace 10 1 0 ?tr0
                 = Some (Inl (SysExit 1), tr')
           \<and> polls tr' = polls ?tr0 + 10
           \<and> last tr' = Message ''Timeout reached waiting for pods to be ready.''"
  proof (rule wait_times_out[where R = ?R])
    fix h assume "polls ?tr0 \<le> polls h" "polls h < polls ?tr0 + 10"
    then have "polls tr \<le> polls h \<and> polls h < polls tr + 10" by simp
    with never have "ready_column (splitlines (poll_output w2 namespace h)) = [''0/1'']" by blast
    then show "\<not> (poll_output w2 namespace h \<noteq> [] \<and> ?R (splitlines (poll_output w2 namespace h)))"
      by (simp add: py_ratio_01 kafka_listing_ready_def)
  qed (simp_all add: kafka_check_lines_polls kafka_fst polls_left_def)
  then have b: "\<exists>tr'. kafka_wait_for_pods w2 namespace 10 1 tr = Some (Inl (SysExit 1), tr')
             \<and> polls tr' = polls tr + 10
             \<and> last tr' = Message ''Timeout reached waiting for pods to be ready.''"
    by (auto simp: kafka_wait_for_pods_Some_iff)
  show ?thesis using a b by (simp add: wait_timeout_now)
qed


theorem readiness_waiter_state_machine_witness:
  "(\<exists>tr'. kafka_wait_for_pods
            (scripted_pods [''kafka-0   0/1   Running   0   5s'', ''kafka-0   1/1   Running   0   6s''])
            ''streaming'' 10 1 [] = Some (Inr True, tr')
          \<and> polls tr' = 2
          \<and> last tr' = Message ''All pods are ready (all containers in each pod are running).'')
   \<and> (\<exists>tr'. kafka_wait_for_pods
            (scripted_pods (replicate 10 ''kafka-0   0/1   ContainerCreating   0   5s''))
            ''streaming'' 10 1 [] = Some (Inl (SysExit 1), tr')
          \<and> polls tr' = 10
          \<and> last tr' = Message ''Timeout reached waiting for pods to be ready.'')"
proof -
  let ?w1 = "scripted_pods [''kafka-0   0/1   Running   0   5s'', ''kafka-0   1/1   Running   0   6s'']"
  let ?w2 = "scripted_pods (replicate 10 ''kafka-0   0/1   ContainerCreating   0   5s'')"
  have l0: "ready_column (splitlines (strip ''kafka-0   0/1   Running   0   5s'')) = [''0/1'']"
    by code_simp
  have l1: "ready_column (splitlines (strip ''kafka-0   1/1   Running   0   6s'')) = [''1/1'']"
    by code_simp
  have l2: "ready_column (splitlines (strip ''kafka-0   0/1   ContainerCreating   0   5s'')) = [''0/1'']"
    by code_simp
  have first: "\<forall>h. polls h = polls [] \<longrightarrow>
      ready_column (splitlines (poll_output ?w1 ''streaming'' h)) = [''0/1'']"
    using l0 by (simp add: scripted_poll_output)
  have second: "\<forall>h. polls h = polls [] + 1 \<longrightarrow>
      ready_column (splitlines (poll_output ?w1 ''streaming'' h)) = [''1/1'']"
    using l1 by (simp add: scripted_poll_output)
  have never: "\<forall>h. polls [] \<le> polls h \<and> polls h < polls [] + 10 \<longrightarrow>
      ready_column (splitlines (poll_output ?w2 ''streaming'' h)) = [''0/1'']"
    using l2 by (simp add: scripted_poll_output)
  have n: "polls [] + 2 = 2" "polls [] + 10 = 10" by simp_all
  note t = readiness_waiter_state_machine [OF first second never, unfolded n]
  show ?thesis
    apply (rule conjI)
     apply (rule t [THEN conjunct1])
    apply (rule t [THEN conjunct2, THEN conjunct1])
    done
qed



lemma kafka_never_ready_on_empty:
  assumes out: "\<And>h. poll_output w namespace h = []"
  shows "kafka_wait_for_pods w namespace timeout interval tr \<noteq> Some (Inr b, tr')"
proof
  assume "kafka_wait_for_pods w namespace timeout interval tr = Some (Inr b, tr')"
  then obtain r0 where
    eq: "wait_for_pods_from kafka_check_lines
       ''All pods are ready (all containers in each pod are running).'' w namespace timeout
       interval 0
       (tr @ [Message ''Waiting for Streaming pods to be in Ready state (all containers ready)...''])
     = Some (r0, tr')" and r: "Inr b = map_sum id (\<lambda>_. True) r0"
    unfolding kafka_wait_for_pods_Some_iff by blast
  from r have "fst (r0, tr') = Inr ()" by (cases r0) simp_all
  from wait_ready_observed[OF eq kafka_fst this]
  show False using out by simp
qed

lemma dashboard_never_ready_on_empty:
  assumes out: "\<And>h. poll_output w namespace h = []"
  shows "dashboard_wait_for_pods w namespace timeout interval tr \<noteq> Some (Inr (), tr')"
proof
  assume "dashboard_wait_for_pods w namespace timeout interval tr = Some (Inr (), tr')"
  then have eq: "wait_for_pods_from dashboard_check_lines ''All pods are ready (READY: 1/1).'' w
       namespace timeout interval 0
       (tr @ [Message ''Waiting for all Kubernetes Dashboard pods to be in Ready state (READY: 1/1)...''])
     = Some (Inr (), tr')"
    by (simp only: dashboard_wait_for_pods_def)
  have "fst (Inr () :: abort + unit, tr') = Inr ()" by simp
  from wait_ready_observed[OF eq dashboard_fst this]
  show False using out by simp
qed


lemma kafka_times_out_on_empty:
  assumes out: "\<And>h. poll_output w namespace h = []" and pos: "0 < interval"
  shows "\<exists>tr'. kafka_wait_for_pods w namespace timeout interval tr = Some (Inl (SysExit 1), tr')
               \<and> polls tr' = polls tr + polls_left timeout interval 0
               \<and> last tr' = Message ''Timeout reached waiting for pods to be ready.''"
proof -
  let ?tr0 = "tr @ [Message ''Waiting for Streaming pods to be in Ready state (all containers ready)...'']"
  have "\<exists>tr'. wait_for_pods_from kafka_check_lines
               ''All pods are ready (all containers in each pod are running).'' w namespace
               timeout interval 0 ?tr0 = Some (Inl (SysExit 1), tr')
           \<and> polls tr' = polls ?tr0 + polls_left timeout interval 0
           \<and> last tr' = Message ''Timeout reached waiting for pods to be ready.''"
  proof (rule wait_times_out[where R = kafka_listing_ready])
    show "polls (snd (kafka_check_lines ls True t)) = polls t" for ls t
      by (rule kafka_check_lines_polls)
    show "fst (kafka_check_lines ls True t) = kafka_listing_ready ls" for ls t
      by (rule kafka_fst)
    show "0 < interval" by (rule pos)
    show "\<not> (poll_output w namespace h \<noteq> [] \<and> kafka_listing_ready (splitlines (poll_output w namespace h)))" for h
      by (simp only: out) simp
    show "polls_left timeout interval 0 = polls_left timeout interval 0" by (rule refl)
  qed
  then obtain tr' where
    "wait_for_pods_from kafka_check_lines
               ''All pods are ready (all containers in each pod are running).'' w namespace
               timeout interval 0 ?tr0 = Some (Inl (SysExit 1), tr')"
    and p: "polls tr' = polls ?tr0 + polls_left timeout interval 0"
    and l: "last tr' = Message ''Timeout reached waiting for pods to be ready.''"
    by blast
  then have "kafka_wait_for_pods w namespace timeout interval tr = Some (Inl (SysExit 1), tr')"
    by (simp add: kafka_wait_for_pods_def)
  moreover from p have "polls tr' = polls tr + polls_left timeout interval 0" by simp
  ultimately show ?thesis using l by blast
qed

lemma dashboard_times_out_on_empty:
  assumes out: "\<And>h. poll_output w namespace h = []" and pos: "0 < interval"
  shows "\<exists>tr'. dashboard_wait_for_pods w namespace timeout interval tr = Some (Inl (SysExit 1), tr')
               \<and> polls tr' = polls tr + polls_left timeout interval 0
               \<and> last tr' = Message ''Timeout reached waiting for pods to be ready.''"
proof -
  let ?tr0 = "tr @ [Message ''Waiting for all Kubernetes Dashboard pods to be in Ready state (READY: 1/1)...'']"
  have "\<exists>tr'. wait_for_pods_from dashboard_check_lines ''All pods are ready (READY: 1/1).'' w
               namespace timeout interval 0 ?tr0 = Some (Inl (SysExit 1), tr')
           \<and> polls tr' = polls ?tr0 + polls_left timeout interval 0
           \<and> last tr' = Message ''Timeout reached waiting for pods to be ready.''"
  proof (rule wait_times_out[where R = dashboard_listing_ready])
    show "polls (snd (dashboard_check_lines ls True t)) = polls t" for ls t
      by (rule dashboard_check_lines_polls)
    show "fst (dashboard_check_lines ls True t) = dashboard_listing_ready ls" for ls t
      by (rule dashboard_fst)
    show "0 < interval" by (rule pos)
    show "\<not> (poll_output w namespace h \<noteq> [] \<and> dashboard_listing_ready (splitlines (poll_output w namespace h)))" for h
      by (simp only: out) simp
    show "polls_left timeout interval 0 = polls_left timeout interval 0" by (rule refl)
  qed
  then obtain tr' where
    "wait_for_pods_from dashboard_check_lines ''All pods are ready (READY: 1/1).'' w
               namespace timeout interval 0 ?tr0 = Some (Inl (SysExit 1), tr')"
    and p: "polls tr' = polls ?tr0 + polls_left timeout interval 0"
    and l: "last tr' = Message ''Timeout reached waiting for pods to be ready.''"
    by blast
  then have "dashboard_wait_for_pods w namespace timeout interval tr = Some (Inl (SysExit 1), tr')"
    by (simp add: dashboard_wait_for_pods_def)
  moreover from p have "polls tr' = polls tr + polls_left timeout interval 0" by simp
  ultimately show ?thesis using l by blast
qed

text \<open>
  C10: readiness over an empty set of pods is not vacuously true. When every poll lists
  zero pod lines, the waiters of deploy\_kafka.py and deploy\_kubernetes\_dashboard.py
  never return Ready, whatever the timeout and the interval, and for a positive interval
  they end with the time-out, after the polls of the timeout window.
\<close>

theorem empty_pod_listing_never_ready:
  assumes empty: "\<forall>h. splitlines (poll_output w namespace h) = []"
  shows "(\<forall>b tr'. kafka_wait_for_pods w namespace timeout interval tr \<noteq> Some (Inr b, tr'))
       \<and> (\<forall>tr'. dashboard_wait_for_pods w namespace timeout interval tr \<noteq> Some (Inr (), tr'))
       \<and> (0 < interval \<longrightarrow>
            (\<exists>tr'. kafka_wait_for_pods w namespace timeout interval tr = Some (Inl (SysExit 1), tr')
               \<and> polls tr' = polls tr + polls_left timeout interval 0
               \<and> last tr' = Message ''Timeout reached waiting for pods to be ready.'')
          \<and> (\<exists>tr'. dashboard_wait_for_pods w namespace timeout interval tr
                       = Some (Inl (SysExit 1), tr')
               \<and> polls tr' = polls tr + polls_left timeout interval 0
               \<and> last tr' = Message ''Timeout reached waiting for pods to be ready.''))"
proof -
  have out: "poll_output w namespace h = []" for h
    using empty by (simp add: splitlines_Nil_iff)
  show ?thesis
    apply (intro conjI allI impI)
       apply (rule kafka_never_ready_on_empty, rule out)
      apply (rule dashboard_never_ready_on_empty, rule out)
     apply (rule kafka_times_out_on_empty, rule out, assumption)
    apply (rule dashboard_times_out_on_empty, rule out, assumption)
    done
qed

theorem empty_pod_listing_never_ready_witness:
  "(\<forall>h. splitlines (poll_output (scripted_pods []) ''streaming'' h) = [])
   \<and> (\<forall>b tr'. kafka_wait_for_pods (scripted_pods []) ''streaming'' 300 10 [] \<noteq> Some (Inr b, tr'))
   \<and> (\<exists>tr'. kafka_wait_for_pods (scripted_pods []) ''streaming'' 300 10 []
                = Some (Inl (SysExit 1), tr') \<and> polls tr' = 30
                \<and> last tr' = Message ''Timeout reached waiting for pods to be ready.'')
   \<and> (\<exists>tr'. dashboard_wait_for_pods (scripted_pods []) ''kubernetes-dashboard'' 300 150 []
                = Some (Inl (SysExit 1), tr') \<and> polls tr' = 2
                \<and> last tr' = Message ''Timeout reached waiting for pods to be ready.'')"
proof -
  have h: "\<forall>h. splitlines (poll_output (scripted_pods []) ns h) = []" for ns
    by (simp add: scripted_poll_output strip_def splitlines_def)
  have n: "polls [] + polls_left 300 10 0 = 30" "polls [] + polls_left 300 150 0 = 2"
    by (simp_all add: polls_left_def)
  have pos: "(0::int) < 10" "(0::int) < 150" by simp_all
  note k = empty_pod_listing_never_ready [OF h, of "''streaming''" 300 10 "[]"]
  note d = empty_pod_listing_never_ready [OF h, of "''kubernetes-dashboard''" 300 150 "[]"]
  note a1 = k [THEN conjunct1]
  note a2 = k [THEN conjunct2, THEN conjunct2, THEN mp, OF pos(1), THEN conjunct1, unfolded n]
  note b2 = d [THEN conjunct2, THEN conjunct2, THEN mp, OF pos(2), THEN conjunct2, unfolded n]
  show ?thesis
    apply (rule conjI)
     apply (rule h)
    apply (rule conjI)
     apply (rule a1)
    apply (rule conjI)
     apply (rule a2)
    apply (rule b2)
    done
qed






section \<open>The snapshot of a namespace\<close>

text \<open>
  C7, as stated, fails: a listing that fails is mapped to the value of an empty
  namespace. With a cluster that cannot be reached the listing command exits with status
  1, and \<open>get_namespace_resources\<close> returns the empty text and writes no message, exactly as
  it does for a namespace that holds nothing; \<open>get_resources\<close> returns the empty text in
  both worlds too.
\<close>

theorem listing_failure_counterexample:
  "returncode (exec unreachable_cluster [] [''kubectl'', ''get'', ''all'', ''-n'', ''database'']) \<noteq> 0
   \<and> returncode (exec empty_namespace [] [''kubectl'', ''get'', ''all'', ''-n'', ''database'']) = 0
   \<and> get_namespace_resources unreachable_cluster []
       = ([], [Exec [''kubectl'', ''get'', ''all'', ''-n'', ''database'']])
   \<and> get_namespace_resources empty_namespace []
       = ([], [Exec [''kubectl'', ''get'', ''all'', ''-n'', ''database'']])
   \<and> fst (get_resources unreachable_cluster ''application'' []) = []
   \<and> fst (get_resources empty_namespace ''application'' []) = []"
  by (simp add: get_namespace_resources_def get_resources_def subprocess_run_def
      unreachable_cluster_def empty_namespace_def static_world_def completed_def strip_def)

text \<open>
  C7, amended: the snapshot is the empty text exactly when the listing command fails or
  succeeds and prints nothing (nothing but white space, in deploy\_ecom\_app.py); a
  listing that succeeds returns what it printed (stripped, in deploy\_ecom\_app.py). On a
  failure deploy\_ecom\_app.py writes an error message before it returns the empty text;
  deploy\_mysql.py writes nothing.
\<close>

theorem namespace_snapshot:
  "(fst (get_namespace_resources w tr) = [] \<longleftrightarrow>
       returncode (exec w tr [''kubectl'', ''get'', ''all'', ''-n'', ''database'']) \<noteq> 0
       \<or> stdout (exec w tr [''kubectl'', ''get'', ''all'', ''-n'', ''database'']) = [])
   \<and> (returncode (exec w tr [''kubectl'', ''get'', ''all'', ''-n'', ''database'']) = 0 \<longrightarrow>
        fst (get_namespace_resources w tr)
          = stdout (exec w tr [''kubectl'', ''get'', ''all'', ''-n'', ''database'']))
   \<and> snd (get_namespace_resources w tr) = tr @ [Exec [''kubectl'', ''get'', ''all'', ''-n'', ''database'']]
   \<and> (fst (get_resources w namespace tr) = [] \<longleftrightarrow>
       returncode (exec w tr [''kubectl'', ''get'', ''all'', ''-n'', namespace]) \<noteq> 0
       \<or> strip (stdout (exec w tr [''kubectl'', ''get'', ''all'', ''-n'', namespace])) = [])
   \<and> (returncode (exec w tr [''kubectl'', ''get'', ''all'', ''-n'', namespace]) = 0 \<longrightarrow>
        get_resources w namespace tr
          = (strip (stdout (exec w tr [''kubectl'', ''get'', ''all'', ''-n'', namespace])),
             tr @ [Exec [''kubectl'', ''get'', ''all'', ''-n'', namespace]]))
   \<and> (returncode (exec w tr [''kubectl'', ''get'', ''all'', ''-n'', namespace]) \<noteq> 0 \<longrightarrow>
        snd (get_resources w namespace tr)
          = tr @ [Exec [''kubectl'', ''get'', ''all'', ''-n'', namespace],
                  Message ''Error getting resources from namespace '{namespace}': {e}''])"
  by (simp add: get_namespace_resources_def get_resources_def subprocess_run_def)

theorem namespace_snapshot_witness:
  "fst (get_namespace_resources empty_namespace []) = []
   \<and> get_resources empty_namespace ''application'' []
       = ([], [Exec [''kubectl'', ''get'', ''all'', ''-n'', ''application'']])
   \<and> snd (get_resources unreachable_cluster ''application'' [])
       = [Exec [''kubectl'', ''get'', ''all'', ''-n'', ''application''],
          Message ''Error getting resources from namespace '{namespace}': {e}'']"
proof -
  have ok: "returncode (exec empty_namespace [] [''kubectl'', ''get'', ''all'', ''-n'', ns]) = 0"
    and out: "stdout (exec empty_namespace [] [''kubectl'', ''get'', ''all'', ''-n'', ns]) = []" for ns
    by (simp_all add: empty_namespace_def static_world_def completed_def)
  have bad: "returncode (exec unreachable_cluster [] [''kubectl'', ''get'', ''all'', ''-n'', ns]) \<noteq> 0" for ns
    by (simp add: unreachable_cluster_def static_world_def completed_def)
  have s: "strip [] = []" by (simp add: strip_def)
  note e = namespace_snapshot [of empty_namespace "[]" "''application''"]
  note u = namespace_snapshot [of unreachable_cluster "[]" "''application''"]
  have a: "fst (get_namespace_resources empty_namespace []) = []"
    using e [THEN conjunct1] out by blast
  have b: "get_resources empty_namespace ''application'' []
       = ([], [Exec [''kubectl'', ''get'', ''all'', ''-n'', ''application'']])"
    using e [THEN conjunct2, THEN conjunct2, THEN conjunct2, THEN conjunct2, THEN conjunct1,
        THEN mp, OF ok]
    by (simp add: out s)
  have c: "snd (get_resources unreachable_cluster ''application'' [])
       = [Exec [''kubectl'', ''get'', ''all'', ''-n'', ''application''],
          Message ''Error getting resources from namespace '{namespace}': {e}'']"
    using u [THEN conjunct2, THEN conjunct2, THEN conjunct2, THEN conjunct2, THEN conjunct2,
        THEN mp, OF bad]
    by simp
  show ?thesis using a b c by (intro conjI)
qed


section \<open>Ensuring the namespace\<close>

lemma creates_simps [simp]:
  "creates [] = 0" "creates (xs @ ys) = creates xs + creates ys"
  "creates (Message m # tr) = creates tr"
  "creates (Exec argv # tr) = (if take 3 argv = [''kubectl'', ''create'', ''namespace''] then 1 else 0) + creates tr"
  by (simp_all add: creates_def)

text \<open>
  C8, as stated, fails: an already-exists race at create time is not a success. When the
  existence check fails and the create then fails because the namespace exists by now,
  \<open>manage_namespace\<close> exits with status 1 and \<open>ensure_namespace\<close> ends with the
  \<open>CalledProcessError\<close> that nothing catches.
\<close>

theorem namespace_race_counterexample:
  "stderr (exec namespace_race [Exec [''kubectl'', ''get'', ''namespace'', ''database'']]
             [''kubectl'', ''create'', ''namespace'', ''database''])
     = ''Error from server (AlreadyExists): namespaces already exists\<newline>''
   \<and> manage_namespace namespace_race []
       = (Inl (SysExit 1),
          [Exec [''kubectl'', ''get'', ''namespace'', ''database''],
           Exec [''kubectl'', ''create'', ''namespace'', ''database''],
           Message ''Error managing namespace: {str(e)}''])
   \<and> fst (ensure_namespace namespace_race ''application'' []) = Inl (Uncaught CalledProcessError)"
  by (simp add: manage_namespace_def ensure_namespace_def subprocess_run_def namespace_race_def
      static_world_def completed_def)

text \<open>
  C8, amended: the namespace is checked first and created only if the check fails: when
  the check succeeds the function succeeds without a create; when it fails, exactly one
  create is run, the function succeeds iff the create exits with status 0, and every
  failure of the create is fatal, whatever its cause (exit 1 in deploy\_mysql.py, the
  uncaught \<open>CalledProcessError\<close> in deploy\_ecom\_app.py).
\<close>

theorem ensure_namespace_create_if_absent:
  "(returncode (exec w tr [''kubectl'', ''get'', ''namespace'', ''database'']) = 0 \<longrightarrow>
       fst (manage_namespace w tr) = Inr () \<and> creates (snd (manage_namespace w tr)) = creates tr)
   \<and> (returncode (exec w tr [''kubectl'', ''get'', ''namespace'', ''database'']) \<noteq> 0 \<longrightarrow>
        creates (snd (manage_namespace w tr)) = creates tr + 1
        \<and> (fst (manage_namespace w tr) = Inr () \<longleftrightarrow>
             returncode (exec w (tr @ [Exec [''kubectl'', ''get'', ''namespace'', ''database'']])
                          [''kubectl'', ''create'', ''namespace'', ''database'']) = 0)
        \<and> (fst (manage_namespace w tr) \<noteq> Inr () \<longrightarrow> fst (manage_namespace w tr) = Inl (SysExit 1)))
   \<and> (returncode (exec w tr [''kubectl'', ''get'', ''namespace'', namespace]) = 0 \<longrightarrow>
        fst (ensure_namespace w namespace tr) = Inr ()
        \<and> creates (snd (ensure_namespace w namespace tr)) = creates tr)
   \<and> (returncode (exec w tr [''kubectl'', ''get'', ''namespace'', namespace]) \<noteq> 0 \<longrightarrow>
        creates (snd (ensure_namespace w namespace tr)) = creates tr + 1
        \<and> (fst (ensure_namespace w namespace tr) = Inr () \<longleftrightarrow>
             returncode (exec w (tr @ [Exec [''kubectl'', ''get'', ''namespace'', namespace],
                                      Message ''Namespace '{namespace}' does not exist. Creating it...''])
                          [''kubectl'', ''create'', ''namespace'', namespace]) = 0)
        \<and> (fst (ensure_namespace w namespace tr) \<noteq> Inr () \<longrightarrow>
             fst (ensure_namespace w namespace tr) = Inl (Uncaught CalledProcessError)))"
  by (simp add: manage_namespace_def ensure_namespace_def subprocess_run_def)

theorem ensure_namespace_create_if_absent_witness:
  "fst (manage_namespace empty_namespace []) = Inr ()
   \<and> creates (snd (manage_namespace empty_namespace [])) = 0
   \<and> fst (manage_namespace namespace_absent []) = Inr ()
   \<and> creates (snd (manage_namespace namespace_absent [])) = 1
   \<and> fst (ensure_namespace empty_namespace ''application'' []) = Inr ()
   \<and> fst (ensure_namespace namespace_absent ''application'' []) = Inr ()
   \<and> fst (ensure_namespace namespace_race ''application'' []) = Inl (Uncaught CalledProcessError)"
proof -
  have ex: "returncode (exec empty_namespace [] [''kubectl'', ''get'', ''namespace'', ns]) = 0" for ns
    by (simp add: empty_namespace_def static_world_def completed_def)
  have ab: "returncode (exec namespace_absent [] [''kubectl'', ''get'', ''namespace'', ns]) \<noteq> 0"
    and cr: "returncode (exec namespace_absent h [''kubectl'', ''create'', ''namespace'', ns]) = 0" for ns h
    by (simp_all add: namespace_absent_def static_world_def completed_def)
  have ra: "returncode (exec namespace_race [] [''kubectl'', ''get'', ''namespace'', ns]) \<noteq> 0"
    and rc: "returncode (exec namespace_race h [''kubectl'', ''create'', ''namespace'', ns]) \<noteq> 0" for ns h
    by (simp_all add: namespace_race_def static_world_def completed_def)
  note e = ensure_namespace_create_if_absent [of empty_namespace "[]" "''application''"]
  note a = ensure_namespace_create_if_absent [of namespace_absent "[]" "''application''"]
  note r = ensure_namespace_create_if_absent [of namespace_race "[]" "''application''"]
  from e ex have 1: "fst (manage_namespace empty_namespace []) = Inr ()"
    "creates (snd (manage_namespace empty_namespace [])) = 0"
    "fst (ensure_namespace empty_namespace ''application'' []) = Inr ()"
    by simp_all
  from a ab cr have 2: "fst (manage_namespace namespace_absent []) = Inr ()"
    "creates (snd (manage_namespace namespace_absent [])) = 1"
    "fst (ensure_namespace namespace_absent ''application'' []) = Inr ()"
    by simp_all
  from r ra rc have 3: "fst (ensure_namespace namespace_race ''application'' []) = Inl (Uncaught CalledProcessError)"
    by simp
  show ?thesis using 1 2 3 by (intro conjI)
qed


section \<open>The deploy workflows\<close>

lemma applies_simps [simp]:
  "applies [] = 0" "applies (xs @ ys) = applies xs + applies ys"
  "applies (Message m # tr) = applies tr" "applies (Sleep n # tr) = applies tr"
  "applies (Prompt q # tr) = applies tr" "applies (FS op # tr) = applies tr"
  "applies (Shell c # tr) = applies tr"
  "applies (Exec argv # tr) = (if take 2 argv = [''kubectl'', ''apply''] then 1 else 0) + applies tr"
  by (simp_all add: applies_def)

lemma applies_and_then:
  assumes "applies (snd r) = n" and "\<And>v tr. applies tr = n \<Longrightarrow> applies (snd (f v tr)) = n"
  shows "applies (snd (and_then r f)) = n"
  using assms by (cases r) (auto simp: and_then_def split: sum.splits)

lemma applies_manage_namespace: "applies (snd (manage_namespace w tr)) = applies tr"
  by (simp add: manage_namespace_def subprocess_run_def)

lemma applies_ensure_namespace: "applies (snd (ensure_namespace w ns tr)) = applies tr"
  by (simp add: ensure_namespace_def subprocess_run_def)

lemma applies_get_namespace_resources: "applies (snd (get_namespace_resources w tr)) = applies tr"
  by (simp add: get_namespace_resources_def subprocess_run_def)

lemma applies_get_resources: "applies (snd (get_resources w ns tr)) = applies tr"
  by (simp add: get_resources_def subprocess_run_def)

lemma applies_display_resources: "applies (display_resources w tr) = applies tr"
  using applies_get_namespace_resources[of w tr]
  by (auto simp add: display_resources_def split: prod.splits)

lemma applies_run_preconditions: "applies (snd (run_preconditions w tr)) = applies tr"
  unfolding run_preconditions_def
  by (intro applies_and_then)
     (simp_all add: verify_user_def verify_directories_def verify_files_def Let_def
        check_minikube_status_def subprocess_run_def applies_manage_namespace)

lemma applies_fetch_loop: "applies (snd (fetch_loop w files tr)) = applies tr"
  by (induction w files tr rule: fetch_loop.induct) simp_all

lemma applies_installation_preconditions:
  "applies (snd (installation_preconditions w tr)) = applies tr"
  unfolding installation_preconditions_def
  by (intro applies_and_then)
     (simp_all add: check_user_def ensure_directory_def change_directory_def ecom_verify_files_def
        Let_def fetch_files_def ecom_check_minikube_status_def subprocess_run_def
        applies_ensure_namespace applies_fetch_loop applies_and_then split: prod.splits)


lemma and_then_Inr [simp]: "and_then (Inr v, tr) f = f v tr"
  by (simp add: and_then_def)


lemma run_reconcile_expected:
  assumes "fst (check_existing_resources w tr1) = ''expected''"
  shows "fst (run_reconcile w tr1) = Inr ()"
    and "applies (snd (run_reconcile w tr1)) = applies tr1"
    and "last (snd (run_reconcile w tr1)) = Message ''Deployment already exists with expected resources''"
proof -
  obtain st tr2 where c: "check_existing_resources w tr1 = (st, tr2)"
    by (cases "check_existing_resources w tr1") auto
  with assms have st: "st = ''expected''" by simp
  have "applies tr2 = applies tr1"
    using c applies_get_namespace_resources[of w tr1]
    by (auto simp: check_existing_resources_def split: prod.splits)
  then show "fst (run_reconcile w tr1) = Inr ()"
    and "applies (snd (run_reconcile w tr1)) = applies tr1"
    and "last (snd (run_reconcile w tr1)) = Message ''Deployment already exists with expected resources''"
    using c st by (simp_all add: run_reconcile_def applies_display_resources)
qed

lemma manage_existing_resources_all_owned:
  assumes "ecom_classification (fst (get_resources w ns tr1)) = Inr AllOwned"
  shows "\<exists>tr2. manage_existing_resources w ns tr1
               = (Inr False, tr2 @ [Message ''Exiting since application resources are already running.''])
             \<and> applies tr2 = applies tr1"
proof -
  obtain out tr2 where g: "get_resources w ns tr1 = (out, tr2)"
    by (cases "get_resources w ns tr1") auto
  with assms have "out \<noteq> []" "resources_belong_to_app out = Inr True"
    by (auto simp: ecom_classification_def split: if_splits sum.splits)
  moreover have "applies tr2 = applies tr1"
    using g applies_get_resources[of w ns tr1] by simp
  ultimately show ?thesis
    using g by (simp add: manage_existing_resources_def ecom_display_resources_def)
qed

text \<open>
  C2: deploy is strictly idempotent. When the checks before the reconciliation pass and
  the namespace is classified AllOwned (\<open>expected\<close> in deploy\_mysql.py), the workflow
  returns normally, its last message reports that the deployment exists already, and the
  run holds no apply: a run that follows a successful run applies no manifest again.
\<close>

theorem deploy_idempotent:
  "(run_preconditions w tr = (Inr (), tr1)
      \<and> fst (check_existing_resources w tr1) = ''expected'' \<longrightarrow>
      fst (run w tr) = Inr ()
      \<and> applies (snd (run w tr)) = applies tr
      \<and> last (snd (run w tr)) = Message ''Deployment already exists with expected resources'')
   \<and> (installation_preconditions w tr = (Inr (), tr1)
      \<and> ecom_classification (fst (get_resources w ''application'' tr1)) = Inr AllOwned \<longrightarrow>
      fst (perform_installation w tr) = Inr ()
      \<and> applies (snd (perform_installation w tr)) = applies tr
      \<and> last (snd (perform_installation w tr))
          = Message ''Exiting since application resources are already running.'')"
proof (rule conjI; rule impI)
  assume a: "run_preconditions w tr = (Inr (), tr1)
      \<and> fst (check_existing_resources w tr1) = ''expected''"
  then have r: "run w tr = run_reconcile w tr1" by (simp add: run_def)
  from a applies_run_preconditions[of w tr] have "applies tr1 = applies tr" by simp
  with a r run_reconcile_expected[of w tr1]
  show "fst (run w tr) = Inr ()
      \<and> applies (snd (run w tr)) = applies tr
      \<and> last (snd (run w tr)) = Message ''Deployment already exists with expected resources''"
    by simp
next
  assume a: "installation_preconditions w tr = (Inr (), tr1)
      \<and> ecom_classification (fst (get_resources w ''application'' tr1)) = Inr AllOwned"
  then obtain tr2 where m: "manage_existing_resources w ''application'' tr1
               = (Inr False, tr2 @ [Message ''Exiting since application resources are already running.''])"
    and p: "applies tr2 = applies tr1"
    using manage_existing_resources_all_owned by blast
  from a applies_installation_preconditions[of w tr] have "applies tr1 = applies tr" by simp
  with a m p
  show "fst (perform_installation w tr) = Inr ()
      \<and> applies (snd (perform_installation w tr)) = applies tr
      \<and> last (snd (perform_installation w tr))
          = Message ''Exiting since application resources are already running.''"
    by (simp add: perform_installation_def)
qed

theorem deploy_idempotent_witness:
  "fst (check_existing_resources (cluster_listing mysql_pods_listing ''no'')
          (snd (run_preconditions (cluster_listing mysql_pods_listing ''no'') []))) = ''expected''
   \<and> fst (run (cluster_listing mysql_pods_listing ''no'') []) = Inr ()
   \<and> applies (snd (run (cluster_listing mysql_pods_listing ''no'') [])) = 0
   \<and> fst (perform_installation (cluster_listing ecom_pod_listing ''continue'') []) = Inr ()
   \<and> applies (snd (perform_installation (cluster_listing ecom_pod_listing ''continue'') [])) = 0"
proof -
  let ?m = "cluster_listing mysql_pods_listing ''no''"
  let ?e = "cluster_listing ecom_pod_listing ''continue''"
  have pm: "run_preconditions ?m [] = (Inr (), snd (run_preconditions ?m []))"
    by code_simp
  have cm: "fst (check_existing_resources ?m (snd (run_preconditions ?m []))) = ''expected''"
    by code_simp
  have pe: "installation_preconditions ?e [] = (Inr (), snd (installation_preconditions ?e []))"
    by code_simp
  have ce: "ecom_classification (fst (get_resources ?e ''application''
              (snd (installation_preconditions ?e [])))) = Inr AllOwned"
    by code_simp
  note t = deploy_idempotent [of ?m "[]" "snd (run_preconditions ?m [])"]
  note u = deploy_idempotent [of ?e "[]" "snd (installation_preconditions ?e [])"]
  from t [THEN conjunct1, THEN mp, OF conjI [OF pm cm]]
  have 1: "fst (run ?m []) = Inr ()" "applies (snd (run ?m [])) = 0" by simp_all
  from u [THEN conjunct2, THEN mp, OF conjI [OF pe ce]]
  have 2: "fst (perform_installation ?e []) = Inr ()"
    "applies (snd (perform_installation ?e [])) = 0" by simp_all
  show ?thesis using cm 1 2 by (intro conjI)
qed


lemma deletes_simps [simp]:
  "deletes [] = 0" "deletes (xs @ ys) = deletes xs + deletes ys"
  "deletes (Message m # tr) = deletes tr" "deletes (Sleep n # tr) = deletes tr"
  "deletes (Prompt q # tr) = deletes tr" "deletes (FS op # tr) = deletes tr"
  "deletes (Shell c # tr) = deletes tr"
  "deletes (Exec argv # tr) = (if take 2 argv = [''kubectl'', ''delete''] then 1 else 0) + deletes tr"
  by (simp_all add: deletes_def)

lemma mutations_simps [simp]:
  "mutations [] = 0" "mutations (xs @ ys) = mutations xs + mutations ys"
  "mutations (Message m # tr) = mutations tr" "mutations (Sleep n # tr) = mutations tr"
  "mutations (Prompt q # tr) = mutations tr" "mutations (FS op # tr) = mutations tr"
  "mutations (Shell c # tr) = mutations tr"
  "mutations (Exec argv # tr)
     = (if take 2 argv \<in> set [[''kubectl'', ''apply''], [''kubectl'', ''delete''], [''kubectl'', ''create'']]
        then 1 else 0) + mutations tr"
  by (simp_all add: mutations_def)



lemma handle_kubectl_output_counts [simp]:
  "applies (handle_kubectl_output out tr) = applies tr"
  "deletes (handle_kubectl_output out tr) = deletes tr"
  by (simp_all add: handle_kubectl_output_def)





lemma deletes_get_namespace_resources [simp]:
  "deletes (snd (get_namespace_resources w tr)) = deletes tr"
  by (simp add: get_namespace_resources_def subprocess_run_def)

lemma get_namespace_resources_counts:
  assumes "get_namespace_resources w tr = (x, tr2)"
  shows "deletes tr2 = deletes tr" and "applies tr2 = applies tr"
  using assms by (auto simp: get_namespace_resources_def subprocess_run_def split: if_splits)

lemma deletes_display_resources [simp]: "deletes (display_resources w tr) = deletes tr"
  by (auto simp add: display_resources_def split: prod.splits dest: get_namespace_resources_counts)

lemma deletes_manage_namespace [simp]: "deletes (snd (manage_namespace w tr)) = deletes tr"
  by (simp add: manage_namespace_def subprocess_run_def)









text \<open>
  C9 on deploy\_mysql.py: the answer is lower-cased but not trimmed. With one foreign pod
  in the namespace, the answer \<open>yes\<close> deletes the namespace and the answer \<open>yes\<close>
  followed by a blank does not, although the two differ only in surrounding white space;
  deploy\_ecom\_app.py takes \<open>delete\<close> with and without the blank alike, and
  deploy\_kafka.py takes \<open>2\<close> between blanks as \<open>2\<close>.
\<close>

theorem answer_not_trimmed:
  "lower (strip ''yes '') = ''yes''
   \<and> filter is_delete (snd (run (cluster_listing foreign_pod_listing ''yes'') []))
       = [Exec [''kubectl'', ''delete'', ''namespace'', ''database'']]
   \<and> filter is_delete (snd (run (cluster_listing foreign_pod_listing ''yes '') [])) = []
   \<and> filter is_delete (snd (perform_installation (cluster_listing foreign_pod_listing ''delete'') []))
       = [Exec [''kubectl'', ''delete'', ''namespace'', ''application'']]
   \<and> filter is_delete (snd (perform_installation (cluster_listing foreign_pod_listing ''delete '') []))
       = [Exec [''kubectl'', ''delete'', ''namespace'', ''application'']]
   \<and> kafka_choice (cluster_listing foreign_pod_listing '' 2 '') []
       = Some (Inr ''2'', [Prompt ''Enter your choice (1 or 2): ''])"
  by code_simp


section \<open>Recreating the namespace\<close>

lemma ns_checks_simps [simp]:
  "ns_checks [] = 0" "ns_checks (xs @ ys) = ns_checks xs + ns_checks ys"
  "ns_checks (Message m # tr) = ns_checks tr" "ns_checks (Sleep n # tr) = ns_checks tr"
  "ns_checks (Exec argv # tr)
     = (if take 3 argv = [''kubectl'', ''get'', ''namespace''] then 1 else 0) + ns_checks tr"
  by (simp_all add: ns_checks_def)

lemma poll_rounds_Suc:
  "poll_rounds (Suc k) = [Sleep 2, Exec [''kubectl'', ''get'', ''namespace'', ''streaming'']] @ poll_rounds k"
  by (simp add: poll_rounds_def)

lemma await_deletion_found:
  assumes "\<And>h. ns_checks tr \<le> ns_checks h \<Longrightarrow> ns_checks h < ns_checks tr + k \<Longrightarrow>
             returncode (exec w h [''kubectl'', ''get'', ''namespace'', ''streaming'']) = 0"
    and "\<And>h. ns_checks h = ns_checks tr + k \<Longrightarrow>
             returncode (exec w h [''kubectl'', ''get'', ''namespace'', ''streaming'']) \<noteq> 0"
    and "k < n"
  shows "await_deletion w n tr = tr @ poll_rounds (Suc k) @ [Message ''Namespace '%s' deleted.'']"
  using assms
proof (induction k arbitrary: n tr)
  case 0
  then obtain m where n: "n = Suc m" by (cases n) auto
  have "returncode (exec w (tr @ [Sleep 2]) [''kubectl'', ''get'', ''namespace'', ''streaming'']) \<noteq> 0"
    by (rule "0.prems"(2)) simp
  then show ?case
    unfolding n by (simp add: subprocess_run_def poll_rounds_def)
next
  case (Suc k)
  then obtain m where n: "n = Suc m" and km: "k < m" by (cases n) auto
  let ?tr1 = "tr @ [Sleep 2, Exec [''kubectl'', ''get'', ''namespace'', ''streaming'']]"
  have rc: "returncode (exec w (tr @ [Sleep 2]) [''kubectl'', ''get'', ''namespace'', ''streaming'']) = 0"
    by (rule Suc.prems(1)) simp_all
  have step: "await_deletion w n tr = await_deletion w m ?tr1"
    unfolding n using rc by (simp add: subprocess_run_def)
  have "await_deletion w m ?tr1 = ?tr1 @ poll_rounds (Suc k) @ [Message ''Namespace '%s' deleted.'']"
  proof (rule Suc.IH)
    fix h assume "ns_checks ?tr1 \<le> ns_checks h" "ns_checks h < ns_checks ?tr1 + k"
    then show "returncode (exec w h [''kubectl'', ''get'', ''namespace'', ''streaming'']) = 0"
      by (intro Suc.prems(1)) simp_all
  next
    fix h assume "ns_checks h = ns_checks ?tr1 + k"
    then show "returncode (exec w h [''kubectl'', ''get'', ''namespace'', ''streaming'']) \<noteq> 0"
      by (intro Suc.prems(2)) simp
  next
    show "k < m" by (rule km)
  qed
  then show ?case unfolding step by (simp add: poll_rounds_Suc)
qed

lemma await_deletion_never:
  assumes "\<And>h. ns_checks tr \<le> ns_checks h \<Longrightarrow> ns_checks h < ns_checks tr + n \<Longrightarrow>
             returncode (exec w h [''kubectl'', ''get'', ''namespace'', ''streaming'']) = 0"
  shows "await_deletion w n tr = tr @ poll_rounds n"
  using assms
proof (induction n arbitrary: tr)
  case 0
  then show ?case by (simp add: poll_rounds_def)
next
  case (Suc n)
  let ?tr1 = "tr @ [Sleep 2, Exec [''kubectl'', ''get'', ''namespace'', ''streaming'']]"
  have rc: "returncode (exec w (tr @ [Sleep 2]) [''kubectl'', ''get'', ''namespace'', ''streaming'']) = 0"
    by (rule Suc.prems) simp_all
  have "await_deletion w n ?tr1 = ?tr1 @ poll_rounds n"
  proof (rule Suc.IH)
    fix h assume "ns_checks ?tr1 \<le> ns_checks h" "ns_checks h < ns_checks ?tr1 + n"
    then show "returncode (exec w h [''kubectl'', ''get'', ''namespace'', ''streaming'']) = 0"
      by (intro Suc.prems) simp_all
  qed
  then show ?case using rc by (simp add: subprocess_run_def poll_rounds_Suc)
qed

lemma deploy_resources_with_delete:
  assumes "returncode (exec w tr [''kubectl'', ''delete'', ''namespace'', ''database'']) = 0"
  shows "deploy_resources w True tr
     = and_then
         (manage_namespace w
            (handle_kubectl_output (stdout (exec w tr [''kubectl'', ''delete'', ''namespace'', ''database'']))
               (tr @ [Exec [''kubectl'', ''delete'', ''namespace'', ''database'']])
             @ [Sleep 10]))
         (\<lambda>_ tr3. deploy_resources w False tr3)"
proof -
  have cr: "checked_run w [''kubectl'', ''delete'', ''namespace'', ''database''] tr
     = (Inr (exec w tr [''kubectl'', ''delete'', ''namespace'', ''database'']),
        tr @ [Exec [''kubectl'', ''delete'', ''namespace'', ''database'']])"
    using assms by (simp add: checked_run_def subprocess_run_def)
  have sl: "time_sleep 10 t = (Inr (), t @ [Sleep 10])" for t
    by (simp add: time_sleep_def)
  show ?thesis
    unfolding deploy_resources_def
    by (simp only: if_True if_False cr sl and_then_Inr)
qed


text \<open>
  C3, as stated, fails on deploy\_mysql.py, which does not poll: after the delete it
  sleeps 10 seconds, asks once whether the namespace exists, creates it if not, and
  applies. This is the run in a cluster that removes the namespace at once; and in a
  cluster where that one check still finds the namespace, the apply begins all the same.
\<close>

theorem recreate_fixed_delay_counterexample:
  "take 5 (filter (\<lambda>e. \<not> is_message e)
             (snd (deploy_resources (live_cluster foreign_pod_listing ''yes'') True [])))
     = [Exec [''kubectl'', ''delete'', ''namespace'', ''database''],
        Sleep 10,
        Exec [''kubectl'', ''get'', ''namespace'', ''database''],
        Exec [''kubectl'', ''create'', ''namespace'', ''database''],
        Exec [''kubectl'', ''apply'', ''-f'', ''mysql.yaml'', ''-n'', ''database'']]
   \<and> returncode (exec (cluster_listing foreign_pod_listing ''yes'')
                     [Exec [''kubectl'', ''delete'', ''namespace'', ''database''], Sleep 10]
                     [''kubectl'', ''get'', ''namespace'', ''database'']) = 0
   \<and> take 4 (filter (\<lambda>e. \<not> is_message e)
             (snd (deploy_resources (cluster_listing foreign_pod_listing ''yes'') True [])))
     = [Exec [''kubectl'', ''delete'', ''namespace'', ''database''],
        Sleep 10,
        Exec [''kubectl'', ''get'', ''namespace'', ''database''],
        Exec [''kubectl'', ''apply'', ''-f'', ''mysql.yaml'', ''-n'', ''database'']]"
  by code_simp

text \<open>
  C3, amended: only deploy\_kafka.py awaits the deletion by polling. After a delete that
  succeeded it asks for the namespace every 2 seconds, at most 30 times, and stops at the
  first answer that does not find it; then it runs the create of the namespace, and this
  step returns normally iff the create succeeded, otherwise it exits with status 1.
  deploy\_mysql.py,
  after a delete that succeeded, sleeps 10 seconds, runs \<open>manage_namespace\<close> (one
  existence check, a create if the check fails) and then deploys as it does without a
  delete.
\<close>

theorem recreate_awaits_deletion:
  "(returncode (exec w tr [''kubectl'', ''delete'', ''namespace'', ''database'']) = 0 \<longrightarrow>
      deploy_resources w True tr
        = and_then
            (manage_namespace w
               (handle_kubectl_output
                  (stdout (exec w tr [''kubectl'', ''delete'', ''namespace'', ''database'']))
                  (tr @ [Exec [''kubectl'', ''delete'', ''namespace'', ''database'']])
                @ [Sleep 10]))
            (\<lambda>_ tr3. deploy_resources w False tr3))
   \<and> (k < 30
        \<and> (\<forall>h. ns_checks tr \<le> ns_checks h \<and> ns_checks h < ns_checks tr + k \<longrightarrow>
               returncode (exec w h [''kubectl'', ''get'', ''namespace'', ''streaming'']) = 0)
        \<and> (\<forall>h. ns_checks h = ns_checks tr + k \<longrightarrow>
               returncode (exec w h [''kubectl'', ''get'', ''namespace'', ''streaming'']) \<noteq> 0) \<longrightarrow>
        await_deletion w 30 tr = tr @ poll_rounds (Suc k) @ [Message ''Namespace '%s' deleted.''])
   \<and> ((\<forall>h. ns_checks tr \<le> ns_checks h \<and> ns_checks h < ns_checks tr + 30 \<longrightarrow>
               returncode (exec w h [''kubectl'', ''get'', ''namespace'', ''streaming'']) = 0) \<longrightarrow>
        await_deletion w 30 tr = tr @ poll_rounds 30)
   \<and> (returncode (exec w (tr @ [Message ''Deleting namespace '%s'...''])
                      [''kubectl'', ''delete'', ''namespace'', ''streaming'']) = 0 \<longrightarrow>
        (fst (kafka_recreate_namespace w tr) = Inr () \<longleftrightarrow>
           returncode
             (exec w
                (await_deletion w 30
                   (tr @ [Message ''Deleting namespace '%s'...'',
                          Exec [''kubectl'', ''delete'', ''namespace'', ''streaming'']]))
                [''kubectl'', ''create'', ''namespace'', ''streaming'']) = 0)
        \<and> (fst (kafka_recreate_namespace w tr) \<noteq> Inr () \<longrightarrow>
               fst (kafka_recreate_namespace w tr) = Inl (SysExit 1))
        \<and> (\<exists>rest. snd (kafka_recreate_namespace w tr)
               = await_deletion w 30
                   (tr @ [Message ''Deleting namespace '%s'...'',
                          Exec [''kubectl'', ''delete'', ''namespace'', ''streaming'']])
                 @ Exec [''kubectl'', ''create'', ''namespace'', ''streaming''] # rest))"
proof (intro conjI)
  show "returncode (exec w tr [''kubectl'', ''delete'', ''namespace'', ''database'']) = 0 \<longrightarrow>
      deploy_resources w True tr
        = and_then
            (manage_namespace w
               (handle_kubectl_output
                  (stdout (exec w tr [''kubectl'', ''delete'', ''namespace'', ''database'']))
                  (tr @ [Exec [''kubectl'', ''delete'', ''namespace'', ''database'']])
                @ [Sleep 10]))
            (\<lambda>_ tr3. deploy_resources w False tr3)"
    by (rule impI) (rule deploy_resources_with_delete)
next
  show "k < 30
        \<and> (\<forall>h. ns_checks tr \<le> ns_checks h \<and> ns_checks h < ns_checks tr + k \<longrightarrow>
               returncode (exec w h [''kubectl'', ''get'', ''namespace'', ''streaming'']) = 0)
        \<and> (\<forall>h. ns_checks h = ns_checks tr + k \<longrightarrow>
               returncode (exec w h [''kubectl'', ''get'', ''namespace'', ''streaming'']) \<noteq> 0) \<longrightarrow>
        await_deletion w 30 tr = tr @ poll_rounds (Suc k) @ [Message ''Namespace '%s' deleted.'']"
    by (rule impI, rule await_deletion_found) blast+
next
  show "(\<forall>h. ns_checks tr \<le> ns_checks h \<and> ns_checks h < ns_checks tr + 30 \<longrightarrow>
               returncode (exec w h [''kubectl'', ''get'', ''namespace'', ''streaming'']) = 0) \<longrightarrow>
        await_deletion w 30 tr = tr @ poll_rounds 30"
    by (rule impI, rule await_deletion_never) blast
next
  show "returncode (exec w (tr @ [Message ''Deleting namespace '%s'...''])
                      [''kubectl'', ''delete'', ''namespace'', ''streaming'']) = 0 \<longrightarrow>
        (fst (kafka_recreate_namespace w tr) = Inr () \<longleftrightarrow>
           returncode
             (exec w
                (await_deletion w 30
                   (tr @ [Message ''Deleting namespace '%s'...'',
                          Exec [''kubectl'', ''delete'', ''namespace'', ''streaming'']]))
                [''kubectl'', ''create'', ''namespace'', ''streaming'']) = 0)
        \<and> (fst (kafka_recreate_namespace w tr) \<noteq> Inr () \<longrightarrow>
               fst (kafka_recreate_namespace w tr) = Inl (SysExit 1))
        \<and> (\<exists>rest. snd (kafka_recreate_namespace w tr)
               = await_deletion w 30
                   (tr @ [Message ''Deleting namespace '%s'...'',
                          Exec [''kubectl'', ''delete'', ''namespace'', ''streaming'']])
                 @ Exec [''kubectl'', ''create'', ''namespace'', ''streaming''] # rest)"
    by (simp add: kafka_recreate_namespace_def subprocess_run_def)
qed


theorem recreate_awaits_deletion_witness:
  "deploy_resources (live_cluster foreign_pod_listing ''yes'') True []
     = and_then
         (manage_namespace (live_cluster foreign_pod_listing ''yes'')
            [Exec [''kubectl'', ''delete'', ''namespace'', ''database''], Sleep 10])
         (\<lambda>_ tr3. deploy_resources (live_cluster foreign_pod_listing ''yes'') False tr3)
   \<and> await_deletion (lingering_cluster 2) 30 []
       = poll_rounds 3 @ [Message ''Namespace '%s' deleted.'']
   \<and> await_deletion (cluster_listing foreign_pod_listing ''2'') 30 [] = poll_rounds 30
   \<and> fst (kafka_recreate_namespace (lingering_cluster 2) []) = Inr ()"
proof -
  let ?live = "live_cluster foreign_pod_listing ''yes''"
  let ?always = "cluster_listing foreign_pod_listing ''2''"
  have d: "returncode (exec ?live [] [''kubectl'', ''delete'', ''namespace'', ''database'']) = 0"
    and o: "stdout (exec ?live [] [''kubectl'', ''delete'', ''namespace'', ''database'']) = []"
    by (simp_all add: live_cluster_def completed_def)
  have s: "handle_kubectl_output [] t = t" for t
    by (simp add: handle_kubectl_output_def strip_def)
  have k: "(2::nat) < 30
        \<and> (\<forall>h. ns_checks [] \<le> ns_checks h \<and> ns_checks h < ns_checks [] + 2 \<longrightarrow>
               returncode (exec (lingering_cluster 2) h [''kubectl'', ''get'', ''namespace'', ''streaming'']) = 0)
        \<and> (\<forall>h. ns_checks h = ns_checks [] + 2 \<longrightarrow>
               returncode (exec (lingering_cluster 2) h [''kubectl'', ''get'', ''namespace'', ''streaming'']) \<noteq> 0)"
    by (simp add: lingering_cluster_def completed_def)
  have n: "\<forall>h. ns_checks [] \<le> ns_checks h \<and> ns_checks h < ns_checks [] + 30 \<longrightarrow>
               returncode (exec ?always h [''kubectl'', ''get'', ''namespace'', ''streaming'']) = 0"
    by (simp add: cluster_listing_def static_world_def completed_def)
  have dl: "returncode (exec (lingering_cluster 2) ([] @ [Message ''Deleting namespace '%s'...''])
                      [''kubectl'', ''delete'', ''namespace'', ''streaming'']) = 0"
    by (simp add: lingering_cluster_def completed_def)
  have cr: "returncode (exec (lingering_cluster 2) h [''kubectl'', ''create'', ''namespace'', ''streaming'']) = 0" for h
    by (simp add: lingering_cluster_def completed_def)
  have 1: "deploy_resources ?live True []
     = and_then (manage_namespace ?live [Exec [''kubectl'', ''delete'', ''namespace'', ''database''], Sleep 10])
         (\<lambda>_ tr3. deploy_resources ?live False tr3)"
    using recreate_awaits_deletion [of ?live "[]", THEN conjunct1, THEN mp, OF d]
    by (simp add: o s)
  have 2: "await_deletion (lingering_cluster 2) 30 [] = poll_rounds 3 @ [Message ''Namespace '%s' deleted.'']"
    using recreate_awaits_deletion [of "lingering_cluster 2" "[]" 2, THEN conjunct2, THEN conjunct1,
        THEN mp, OF k]
    by (simp add: numeral_3_eq_3)
  have 3: "await_deletion ?always 30 [] = poll_rounds 30"
    using recreate_awaits_deletion [of ?always "[]", THEN conjunct2, THEN conjunct2, THEN conjunct1,
        THEN mp, OF n]
    by simp
  have 4: "fst (kafka_recreate_namespace (lingering_cluster 2) []) = Inr ()"
    using recreate_awaits_deletion [of "lingering_cluster 2" "[]", THEN conjunct2, THEN conjunct2,
        THEN conjunct2, THEN mp, OF dl]
    by (simp add: cr)
  show ?thesis using 1 2 3 4 by (intro conjI)
qed


end
